theory Spec2Isabelle
  imports Complex_Main "HOL-Library.Multiset" "HOL-Library.Sublist"
begin

section \<open>Data model (src/types/index.ts and the interfaces of the routing service)\<close>

text \<open>
  JavaScript numbers are modelled as follows: coordinates, distances, noise levels, rates
  and scores are \<^typ>\<open>real\<close> (the idealisation of IEEE doubles, without \<open>NaN\<close> and
  rounding), except in \<open>generateIntermediateWaypoints\<close>, which is modelled in double
  arithmetic; epoch-millisecond timestamps are \<^typ>\<open>int\<close>, array lengths and
  the counts of a zone are \<^typ>\<open>nat\<close>, and the three counts of a session, which the
  functions only read and never compare with the entries, are \<^typ>\<open>int\<close>. Field names
  follow the TypeScript interfaces; a prefix is added where two interfaces share a field
  name (\<open>id\<close>, \<open>center\<close>, \<open>radius\<close>, \<open>timestamp\<close>, \<open>stressCount\<close>, \<open>calmScore\<close>,
  \<open>avoidsStressZones\<close>, ...) or the name is an Isar keyword (\<open>notes\<close>).
\<close>

datatype Mood = calm | neutral | stressed

text \<open>\<open>RoutePoint\<close> is \<open>{latitude, longitude}\<close>; \<open>Location\<close> has the same two fields
  plus \<open>accuracy?\<close> and \<open>timestamp\<close>, so it is modelled as an extension.\<close>

record RoutePoint =
  latitude :: real
  longitude :: real

record Location = RoutePoint +
  accuracy :: "real option"
  timestamp :: int

record MoodEntry =
  me_id :: string
  location :: Location
  mood :: Mood
  noiseLevel :: real
  me_timestamp :: int
  me_notes :: "string option"

record WalkSession =
  ws_id :: string
  startTime :: int
  endTime :: "int option"
  moodEntries :: "MoodEntry list"
  totalDistance :: "real option"
  averageNoise :: "real option"
  stressCount :: int
  calmCount :: int
  neutralCount :: int
  summary :: "string option"

record CalmZone =
  cz_id :: string
  cz_center :: Location
  cz_radius :: real
  calmScore :: real
  visitCount :: nat
  lastVisited :: int

record StressZone =
  sz_id :: string
  sz_center :: Location
  sz_radius :: real
  stressScore :: real
  sz_stressCount :: nat
  lastStressed :: int

text \<open>The anonymous object type \<open>{ center: Location; entries: MoodEntry[] }\<close> of
  \<open>clusterNearbyEntries\<close>.\<close>

record Cluster =
  center :: Location
  entries :: "MoodEntry list"

section \<open>GPSService.calculateDistance and isWithinRadius (src/services/gps.ts)\<close>

text \<open>\<open>Math.atan2(y, x)\<close> on the reals.\<close>

definition atan2 :: "real \<Rightarrow> real \<Rightarrow> real" where
  "atan2 y x =
     (if 0 < x then arctan (y / x)
      else if x < 0 then (if 0 \<le> y then arctan (y / x) + pi else arctan (y / x) - pi)
      else if 0 < y then pi / 2
      else if y < 0 then - (pi / 2)
      else 0)"

definition calculateDistance :: "Location \<Rightarrow> Location \<Rightarrow> real" where
  "calculateDistance loc1 loc2 =
     (let R = 6371000;
          phi1 = (latitude loc1 * pi) / 180;
          phi2 = (latitude loc2 * pi) / 180;
          dphi = ((latitude loc2 - latitude loc1) * pi) / 180;
          dlam = ((longitude loc2 - longitude loc1) * pi) / 180;
          a = sin (dphi / 2) * sin (dphi / 2)
              + cos phi1 * cos phi2 * sin (dlam / 2) * sin (dlam / 2);
          c = 2 * atan2 (sqrt a) (sqrt (1 - a))
      in R * c)"

text \<open>
  On doubles the term \<open>a\<close> can round above 1 for nearly antipodal points, and the distance
  is then \<open>NaN\<close>. The functions modelled with this definition compare the distance with a
  threshold of 50 m, 200 m or a zone radius, and such a comparison is false for \<open>NaN\<close> as it
  is for the real distance of about 20000 km (\<open>generateRouteSuggestion\<close> also reports the
  distance, rounded, as the duration). The result of \<open>generateIntermediateWaypoints\<close>
  changes with \<open>NaN\<close>; it uses \<open>calculateDistance_double\<close> below.
\<close>

definition isWithinRadius :: "Location \<Rightarrow> Location \<Rightarrow> real \<Rightarrow> bool" where
  "isWithinRadius cntr point radiusMeters \<longleftrightarrow> calculateDistance cntr point \<le> radiusMeters"

section \<open>InsightsService.clusterNearbyEntries (src/services/audio.ts)\<close>

text \<open>
  The inner \<open>entries.forEach(otherEntry => ...)\<close>: its state is the member list of the
  cluster under construction and the \<open>processed\<close> id set, which is updated while the
  loop runs.
\<close>

definition addNearby ::
  "MoodEntry \<Rightarrow> real \<Rightarrow> MoodEntry \<Rightarrow> MoodEntry list \<times> string set \<Rightarrow> MoodEntry list \<times> string set"
where
  "addNearby entry radiusMeters otherEntry s =
     (case s of (members, processed) \<Rightarrow>
        if me_id otherEntry = me_id entry \<or> me_id otherEntry \<in> processed then s
        else if calculateDistance (location entry) (location otherEntry) \<le> radiusMeters
          then (members @ [otherEntry], insert (me_id otherEntry) processed)
        else s)"

text \<open>The body of the outer \<open>entries.forEach(entry => ...)\<close>; its state is the cluster list
  and the \<open>processed\<close> set.\<close>

definition clusterStep ::
  "MoodEntry list \<Rightarrow> real \<Rightarrow> MoodEntry \<Rightarrow> Cluster list \<times> string set \<Rightarrow> Cluster list \<times> string set"
where
  "clusterStep allEntries radiusMeters entry s =
     (case s of (clusters, processed) \<Rightarrow>
        if me_id entry \<in> processed then s
        else
          (case fold (addNearby entry radiusMeters) allEntries ([entry], processed) of
             (members, processed') \<Rightarrow>
               (clusters @ [\<lparr>center = location entry, entries = members\<rparr>],
                insert (me_id entry) processed')))"

definition clusterNearbyEntries :: "MoodEntry list \<Rightarrow> real \<Rightarrow> Cluster list" where
  "clusterNearbyEntries allEntries radiusMeters =
     fst (fold (clusterStep allEntries radiusMeters) allEntries ([], {}))"

section \<open>InsightsService.updateZonesFromSession (src/services/audio.ts)\<close>

text \<open>
  The zone arrays hold references to zone objects, and a merge writes to the found object
  (\<open>existingZone.stressCount += ...\<close>), so the objects live in an explicit heap: one cell
  map per interface and the next unallocated address. An array is the list of the
  addresses it holds. The spread copies \<open>[...existingCalmZones]\<close> and
  \<open>[...existingStressZones]\<close> are new arrays holding the same addresses; \<open>push\<close> is
  only ever applied to these copies, so they are threaded as values.
\<close>

type_synonym ref = nat

record heap =
  calmObj :: "ref \<Rightarrow> CalmZone"
  stressObj :: "ref \<Rightarrow> StressZone"
  nextRef :: ref

text \<open>\<open>Math.max(...cluster.entries.map(e => e.timestamp))\<close>. On the empty list JavaScript
  yields \<open>-Infinity\<close>, which \<^typ>\<open>int\<close> lacks; both call sites are guarded by
  \<open>cluster.entries.length >= 2\<close>, and the first equation is never reached from them.\<close>

fun Math_max :: "int list \<Rightarrow> int" where
  "Math_max [] = 0"
| "Math_max (t # ts) = fold max ts t"

definition stressRate :: "Cluster \<Rightarrow> real" where
  "stressRate cluster =
     real (length (filter (\<lambda>e. mood e = stressed) (entries cluster))) / real (length (entries cluster))"

definition calmRate :: "Cluster \<Rightarrow> real" where
  "calmRate cluster =
     real (length (filter (\<lambda>e. mood e = calm) (entries cluster))) / real (length (entries cluster))"

text \<open>
  The body of \<open>clusters.forEach(cluster => ...)\<close>. The state is the heap and the two
  working arrays. \<open>freshId\<close> stands for the text \<open>${Date.now()}_${Math.random()...}\<close> of a
  new zone's id, indexed by the address being allocated.
\<close>

definition processCluster ::
  "(nat \<Rightarrow> string) \<Rightarrow> Cluster \<Rightarrow> heap \<times> ref list \<times> ref list \<Rightarrow> heap \<times> ref list \<times> ref list"
where
  "processCluster freshId cluster s =
     (case s of (h, calmZones, stressZones) \<Rightarrow>
        if stressRate cluster > 0.6 \<and> length (entries cluster) \<ge> 2 then
          (case find (\<lambda>zone. calculateDistance (sz_center (stressObj h zone)) (center cluster) < 50)
                  stressZones of
             Some existingZone \<Rightarrow>
               (h\<lparr>stressObj := (stressObj h)(existingZone := (stressObj h existingZone)
                    \<lparr>sz_stressCount := sz_stressCount (stressObj h existingZone) + length (entries cluster),
                     stressScore := min 1 (stressScore (stressObj h existingZone) + 0.1),
                     lastStressed := max (lastStressed (stressObj h existingZone))
                                         (Math_max (map me_timestamp (entries cluster)))\<rparr>)\<rparr>,
                calmZones, stressZones)
           | None \<Rightarrow>
               (h\<lparr>stressObj := (stressObj h)(nextRef h :=
                    \<lparr>sz_id = ''stress_'' @ freshId (nextRef h),
                     sz_center = center cluster,
                     sz_radius = 30,
                     stressScore = stressRate cluster,
                     sz_stressCount = length (entries cluster),
                     lastStressed = Math_max (map me_timestamp (entries cluster))\<rparr>),
                  nextRef := Suc (nextRef h)\<rparr>,
                calmZones, stressZones @ [nextRef h]))
        else if calmRate cluster > 0.6 \<and> length (entries cluster) \<ge> 2 then
          (case find (\<lambda>zone. calculateDistance (cz_center (calmObj h zone)) (center cluster) < 50)
                  calmZones of
             Some existingZone \<Rightarrow>
               (h\<lparr>calmObj := (calmObj h)(existingZone := (calmObj h existingZone)
                    \<lparr>visitCount := visitCount (calmObj h existingZone) + length (entries cluster),
                     calmScore := min 1 (calmScore (calmObj h existingZone) + 0.1),
                     lastVisited := max (lastVisited (calmObj h existingZone))
                                        (Math_max (map me_timestamp (entries cluster)))\<rparr>)\<rparr>,
                calmZones, stressZones)
           | None \<Rightarrow>
               (h\<lparr>calmObj := (calmObj h)(nextRef h :=
                    \<lparr>cz_id = ''calm_'' @ freshId (nextRef h),
                     cz_center = center cluster,
                     cz_radius = 30,
                     calmScore = calmRate cluster,
                     visitCount = length (entries cluster),
                     lastVisited = Math_max (map me_timestamp (entries cluster))\<rparr>),
                  nextRef := Suc (nextRef h)\<rparr>,
                calmZones @ [nextRef h], stressZones))
        else s)"

definition updateZonesFromSession ::
  "(nat \<Rightarrow> string) \<Rightarrow> heap \<Rightarrow> WalkSession \<Rightarrow> ref list \<Rightarrow> ref list \<Rightarrow> heap \<times> ref list \<times> ref list"
where
  "updateZonesFromSession freshId h session existingCalmZones existingStressZones =
     (let calmZones = existingCalmZones;
          stressZones = existingStressZones;
          clusters = clusterNearbyEntries (moodEntries session) 30
      in fold (processCluster freshId) clusters (h, calmZones, stressZones))"

section \<open>Integers in template literals\<close>

text \<open>Template literals print integers in decimal (JavaScript switches to exponent
  notation only from \<open>1e21\<close> on, which is not modelled).\<close>

definition digitChar :: "nat \<Rightarrow> char" where
  "digitChar d = ''0123456789'' ! d"

fun decimal :: "nat \<Rightarrow> string" where
  "decimal n = (if n < 10 then [digitChar n] else decimal (n div 10) @ [digitChar (n mod 10)])"

declare decimal.simps [simp del]

definition numberToString :: "int \<Rightarrow> string" where
  "numberToString i = (if i < 0 then CHR ''-'' # decimal (nat (- i)) else decimal (nat i))"

section \<open>InsightsService.generateRouteSuggestion (src/services/audio.ts)\<close>



section \<open>RoutingService.analyzeRouteOptimization (src/unnamed/part_001)\<close>

record RouteAnalysis =
  ra_calmScore :: real
  ra_avoidsStressZones :: "string list"
  ra_includesCalmZones :: "string list"

text \<open>The bodies of the two inner \<open>forEach\<close> loops; the state is
  \<open>(calmScore, avoidsStressZones, includesCalmZones)\<close>, the local \<open>calmScore\<close> written
  \<open>calmScore'\<close> to keep it apart from the field of \<open>CalmZone\<close>.\<close>

definition checkStressZone ::
  "Location \<Rightarrow> StressZone \<Rightarrow> real \<times> string list \<times> string list \<Rightarrow> real \<times> string list \<times> string list"
where
  "checkStressZone pointLocation zone s =
     (case s of (calmScore', avoidsStressZones, includesCalmZones) \<Rightarrow>
        if isWithinRadius (sz_center zone) pointLocation (sz_radius zone) then
          (calmScore' - 0.1,
           if sz_id zone \<notin> set avoidsStressZones then avoidsStressZones @ [sz_id zone]
           else avoidsStressZones,
           includesCalmZones)
        else s)"

definition checkCalmZone ::
  "Location \<Rightarrow> CalmZone \<Rightarrow> real \<times> string list \<times> string list \<Rightarrow> real \<times> string list \<times> string list"
where
  "checkCalmZone pointLocation zone s =
     (case s of (calmScore', avoidsStressZones, includesCalmZones) \<Rightarrow>
        if isWithinRadius (cz_center zone) pointLocation (cz_radius zone) then
          (calmScore' + 0.05,
           avoidsStressZones,
           if cz_id zone \<notin> set includesCalmZones then includesCalmZones @ [cz_id zone]
           else includesCalmZones)
        else s)"

text \<open>The body of \<open>waypoints.forEach(point => ...)\<close>.\<close>

definition pointLocation :: "RoutePoint \<Rightarrow> Location" where
  "pointLocation point =
     \<lparr>latitude = latitude point, longitude = longitude point, accuracy = None, timestamp = 0\<rparr>"

definition checkWaypoint ::
  "CalmZone list \<Rightarrow> StressZone list \<Rightarrow> RoutePoint \<Rightarrow> real \<times> string list \<times> string list
     \<Rightarrow> real \<times> string list \<times> string list"
where
  "checkWaypoint calmZones stressZones point s =
     fold (checkCalmZone (pointLocation point)) calmZones
       (fold (checkStressZone (pointLocation point)) stressZones s)"

definition analyzeRouteOptimization ::
  "RoutePoint list \<Rightarrow> CalmZone list \<Rightarrow> StressZone list \<Rightarrow> RouteAnalysis"
where
  "analyzeRouteOptimization waypoints calmZones stressZones =
     (case fold (checkWaypoint calmZones stressZones) waypoints (0.5, [], []) of
        (calmScore', avoidsStressZones, includesCalmZones) \<Rightarrow>
          \<lparr>ra_calmScore = max 0 (min 1 calmScore'),
           ra_avoidsStressZones = avoidsStressZones,
           ra_includesCalmZones = includesCalmZones\<rparr>)"

section \<open>Double arithmetic\<close>

text \<open>
  What \<open>generateIntermediateWaypoints\<close> returns depends on how doubles round and on
  \<open>NaN\<close>, so it is modelled in double arithmetic. A finite double is the real number it
  stands for. An arithmetic operation of the source is the exact operation followed by
  \<open>fl\<close>, the rounding of a real number to a double; \<open>Math.PI\<close>, \<open>Math.sin\<close>, \<open>Math.cos\<close>
  and \<open>Math.atan2\<close> are what the engine provides. These five are parameters, so that what
  is proved holds for every rounding and every engine. \<open>Math.sqrt\<close> is the rounded square
  root, and \<open>NaN\<close> below zero. The literals \<open>0.5\<close>, \<open>2\<close>, \<open>3\<close>, \<open>8\<close>, \<open>180\<close>, \<open>200\<close> and
  \<open>6371e3\<close> are doubles, \<open>0.0001\<close> is not and is rounded. Coordinates and random draws
  are finite doubles; overflow, which coordinates on Earth do not reach, is not modelled.
\<close>

record Doubles =
  fl :: "real \<Rightarrow> real"
  Math_PI :: real
  Math_sin :: "real \<Rightarrow> real"
  Math_cos :: "real \<Rightarrow> real"
  Math_atan2 :: "real \<Rightarrow> real \<Rightarrow> real"

datatype number = NaN | Double real

text \<open>
  \<open>GPSService.calculateDistance\<close> (src/services/gps.ts) in double arithmetic. The products
  are taken from left to right. \<open>Math.sqrt(a)\<close> is \<open>NaN\<close> when \<open>a\<close> is negative and
  \<open>Math.sqrt(1 - a)\<close> when \<open>1 - a\<close> is; \<open>Math.atan2\<close>, the product with 2 and the product
  with \<open>R\<close> hand \<open>NaN\<close> on.
\<close>

definition calculateDistance_double :: "Doubles \<Rightarrow> Location \<Rightarrow> Location \<Rightarrow> number" where
  "calculateDistance_double m loc1 loc2 =
     (let R = 6371000;
          phi1 = fl m (fl m (latitude loc1 * Math_PI m) / 180);
          phi2 = fl m (fl m (latitude loc2 * Math_PI m) / 180);
          dphi = fl m (fl m (fl m (latitude loc2 - latitude loc1) * Math_PI m) / 180);
          dlam = fl m (fl m (fl m (longitude loc2 - longitude loc1) * Math_PI m) / 180);
          a = fl m (fl m (Math_sin m (fl m (dphi / 2)) * Math_sin m (fl m (dphi / 2)))
                    + fl m (fl m (fl m (Math_cos m phi1 * Math_cos m phi2)
                                    * Math_sin m (fl m (dlam / 2)))
                              * Math_sin m (fl m (dlam / 2))))
      in if a < 0 \<or> fl m (1 - a) < 0 then NaN
         else (let c = fl m (2 * Math_atan2 m (fl m (sqrt a)) (fl m (sqrt (fl m (1 - a)))))
               in Double (fl m (R * c))))"

section \<open>RoutingService.generateIntermediateWaypoints (src/unnamed/part_001)\<close>

text \<open>
  \<open>random k\<close> is the value returned by the \<open>k\<close>-th call of \<open>Math.random()\<close> (counting
  from 0); iteration \<open>i\<close> of the loop makes the calls \<open>2 * i\<close> and \<open>2 * i + 1\<close>.
  \<open>Math.floor\<close>, \<open>Math.min\<close> and \<open>Math.max\<close> hand \<open>NaN\<close> on, so \<open>steps\<close> is \<open>NaN\<close> (here
  \<open>None\<close>) when the distance is, and an integer otherwise. The condition \<open>i <= steps\<close> of
  the loop \<open>for (let i = 0; i <= steps; i++)\<close> is false for \<open>NaN\<close>, so the loop body never
  runs then; otherwise the loop is the map over \<open>[0 ..< steps + 1]\<close>.
\<close>

definition generateIntermediateWaypoints ::
  "Doubles \<Rightarrow> (nat \<Rightarrow> real) \<Rightarrow> Location \<Rightarrow> Location \<Rightarrow> RoutePoint list"
where
  "generateIntermediateWaypoints m random start end' =
     (let distance = calculateDistance_double m start end';
          steps = (case distance of
                     NaN \<Rightarrow> None
                   | Double d \<Rightarrow> Some (max 3 (min 8 (floor (fl m (d / 200))))))
      in case steps of
           None \<Rightarrow> []
         | Some n \<Rightarrow>
             map (\<lambda>i.
               let ratio = fl m (real i / real_of_int n);
                   lat = fl m (latitude start + fl m (fl m (latitude end' - latitude start) * ratio));
                   lng = fl m (longitude start + fl m (fl m (longitude end' - longitude start) * ratio));
                   variation = fl m 0.0001;
                   latVariation = fl m (fl m (random (2 * i) - 0.5) * variation);
                   lngVariation = fl m (fl m (random (2 * i + 1) - 0.5) * variation)
               in \<lparr>latitude = fl m (lat + latVariation), longitude = fl m (lng + lngVariation)\<rparr>)
             [0 ..< nat n + 1])"

section \<open>InsightsService.generateSessionInsights and its helpers (src/services/audio.ts)\<close>

text \<open>\<open>Array.prototype.join\<close> on an array of strings.\<close>

fun join :: "string \<Rightarrow> string list \<Rightarrow> string" where
  "join sep [] = []"
| "join sep [x] = x"
| "join sep (x # y # ys) = x @ sep @ join sep (y # ys)"

text \<open>\<open>analyzeTimePatterns\<close>: a period is the pair of its name and its stress rate;
  \<open>reduce\<close> without an initial value starts from the first element.\<close>

definition periodStressRate :: "MoodEntry list \<Rightarrow> real" where
  "periodStressRate es =
     (if length es > 0
      then real (length (filter (\<lambda>e. mood e = stressed) es)) / real (length es)
      else 0)"

definition analyzeTimePatterns ::
  "MoodEntry list \<Rightarrow> MoodEntry list \<Rightarrow> MoodEntry list \<Rightarrow> string option"
where
  "analyzeTimePatterns morning afternoon evening =
     (let periods = [(''morning'', morning), (''afternoon'', afternoon), (''evening'', evening)];
          periodStressRates = map (\<lambda>period. (fst period, periodStressRate (snd period))) periods;
          bestPeriod = foldl (\<lambda>best current. if snd current < snd best then current else best)
                         (hd periodStressRates) (tl periodStressRates);
          worstPeriod = foldl (\<lambda>worst current. if snd current > snd worst then current else worst)
                         (hd periodStressRates) (tl periodStressRates)
      in if snd bestPeriod < 0.2 \<and> snd worstPeriod > 0.4
         then Some (''Consider walking more in the '' @ fst bestPeriod
                    @ '' when stress levels are lower.'')
         else None)"

definition stressAreasSentence :: string where
  "stressAreasSentence =
     ''Some areas consistently triggered stress. Consider avoiding these locations.''"

definition calmAreasSentence :: string where
  "calmAreasSentence =
     ''Some areas consistently provided calm moments. These might be good rest spots.''"

text \<open>\<open>analyzeLocationPatterns\<close>: an element of \<open>clusterMoods\<close> is the tuple
  \<open>(center, entries, stressRate, calmRate)\<close>.\<close>

definition analyzeLocationPatterns :: "MoodEntry list \<Rightarrow> string option" where
  "analyzeLocationPatterns es =
     (if length es < 3 then None
      else
        (let clusters = clusterNearbyEntries es 50;
             clusterMoods = map (\<lambda>cluster.
                 (center cluster, entries cluster, stressRate cluster, calmRate cluster)) clusters;
             stressClusters = filter (\<lambda>(c, m, sr, cr). sr > 0.6) clusterMoods;
             calmClusters = filter (\<lambda>(c, m, sr, cr). cr > 0.6) clusterMoods
         in if length stressClusters > 0 then Some stressAreasSentence
            else if length calmClusters > 0 then Some calmAreasSentence
            else None))"

text \<open>
  \<open>generateSessionInsights\<close>. \<open>getHours t\<close> stands for
  \<open>new Date(t).getHours()\<close>, the hour of day of \<open>t\<close> in the local time zone; it
  is a parameter because it depends on the environment. The optional sentences are
  pushed in the order of the source (\<open>insights1\<close> ... \<open>insights4\<close> are the successive
  values of the array \<open>insights\<close>).
\<close>

definition generateSessionInsights :: "(int \<Rightarrow> nat) \<Rightarrow> WalkSession \<Rightarrow> string" where
  "generateSessionInsights getHours session =
     (if length (moodEntries session) = 0 then ''No mood data recorded for this walk.''
      else
        (let totalEntries = length (moodEntries session);
             stressPercentage = round (real_of_int (stressCount session) / real totalEntries * 100);
             calmPercentage = round (real_of_int (calmCount session) / real totalEntries * 100);
             insights1 =
               (if stressCount session > calmCount session then
                  [''The walk had more stressful moments ('' @ numberToString stressPercentage
                     @ ''%) than calm ones.'']
                else if calmCount session > stressCount session then
                  [''The walk was mostly peaceful ('' @ numberToString calmPercentage
                     @ ''% calm moments).'']
                else [''The walk had a balanced mix of emotions.'']);
             highNoiseEntries = filter (\<lambda>entry. noiseLevel entry > 60) (moodEntries session);
             highNoiseStressed = filter (\<lambda>entry. mood entry = stressed) highNoiseEntries;
             insights2 =
               (if length highNoiseStressed > 0 then
                  (let noiseStressCorrelation =
                         round (real (length highNoiseStressed) / real (length highNoiseEntries) * 100)
                   in insights1 @
                      [''High noise levels ('' @ decimal (length highNoiseStressed)
                         @ '' instances) often correlated with stress (''
                         @ numberToString noiseStressCorrelation @ ''% of the time).''])
                else insights1);
             morningEntries = filter (\<lambda>entry.
                 let hour = getHours (me_timestamp entry) in hour \<ge> 6 \<and> hour < 12) (moodEntries session);
             afternoonEntries = filter (\<lambda>entry.
                 let hour = getHours (me_timestamp entry) in hour \<ge> 12 \<and> hour < 18) (moodEntries session);
             eveningEntries = filter (\<lambda>entry.
                 let hour = getHours (me_timestamp entry) in hour \<ge> 18 \<or> hour < 6) (moodEntries session);
             timeInsights = analyzeTimePatterns morningEntries afternoonEntries eveningEntries;
             insights3 = (case timeInsights of Some t \<Rightarrow> insights2 @ [t] | None \<Rightarrow> insights2);
             locationInsights = analyzeLocationPatterns (moodEntries session);
             insights4 = (case locationInsights of Some l \<Rightarrow> insights3 @ [l] | None \<Rightarrow> insights3)
         in join '' '' insights4))"

section \<open>Auxiliary notions used in the statements and proofs\<close>

text \<open>All members of a list of clusters, cluster after cluster.\<close>

definition members :: "Cluster list \<Rightarrow> MoodEntry list" where
  "members cs = concat (map entries cs)"

text \<open>The invariant of the outer loop of \<open>clusterNearbyEntries\<close> over the input \<open>E\<close>:
  \<open>processed\<close> holds exactly the ids of the entries clustered so far, no id is clustered
  twice, and every cluster starts with its anchor, whose location is the center.\<close>

definition cluster_inv :: "MoodEntry list \<Rightarrow> Cluster list \<times> string set \<Rightarrow> bool" where
  "cluster_inv E s =
     (case s of (cs, P) \<Rightarrow>
        P = me_id ` set (members cs) \<and> distinct (map me_id (members cs)) \<and>
        set (members cs) \<subseteq> set E \<and>
        list_all (\<lambda>c. entries c \<noteq> [] \<and> center c = location (hd (entries c)) \<and>
                       hd (entries c) \<in> set E) cs)"

text \<open>A waypoint lies within a zone's radius of its center, as \<open>analyzeRouteOptimization\<close>
  tests it; the number of (waypoint, zone) pairs for which it does.\<close>

definition touchesStress :: "RoutePoint \<Rightarrow> StressZone \<Rightarrow> bool" where
  "touchesStress p z = isWithinRadius (sz_center z) (pointLocation p) (sz_radius z)"

definition touchesCalm :: "RoutePoint \<Rightarrow> CalmZone \<Rightarrow> bool" where
  "touchesCalm p z = isWithinRadius (cz_center z) (pointLocation p) (cz_radius z)"

definition stressHits :: "RoutePoint list \<Rightarrow> StressZone list \<Rightarrow> nat" where
  "stressHits ps zs = length (filter (\<lambda>(p, z). touchesStress p z) (List.product ps zs))"

definition calmHits :: "RoutePoint list \<Rightarrow> CalmZone list \<Rightarrow> nat" where
  "calmHits ps zs = length (filter (\<lambda>(p, z). touchesCalm p z) (List.product ps zs))"

text \<open>The jitter term \<open>(Math.random() - 0.5) * variation\<close> of
  \<open>generateIntermediateWaypoints\<close> for the draw \<open>r\<close>, and the interpolated coordinate
  \<open>a + (b - a) * ratio\<close> of iteration \<open>i\<close> of \<open>n\<close> steps, both in double arithmetic.\<close>

definition jitter :: "Doubles \<Rightarrow> real \<Rightarrow> real" where
  "jitter m r = fl m (fl m (r - 0.5) * fl m 0.0001)"

definition interpolated :: "Doubles \<Rightarrow> real \<Rightarrow> real \<Rightarrow> nat \<Rightarrow> int \<Rightarrow> real" where
  "interpolated m a b i n = fl m (a + fl m (fl m (b - a) * fl m (real i / real_of_int n)))"



text \<open>
  How a state of the zone update may differ from an earlier one: the allocation pointer and
  the two arrays only grow, the arrays by newly allocated addresses, and a zone object
  allocated before keeps its id, center and radius, its count and last timestamp do not
  decrease, and its score stays at most 1 if it was.
\<close>

definition zones_grow :: "heap \<times> ref list \<times> ref list \<Rightarrow> heap \<times> ref list \<times> ref list \<Rightarrow> bool" where
  "zones_grow s s' =
     (case s of (h, calmZones, stressZones) \<Rightarrow>
      case s' of (h', calmZones', stressZones') \<Rightarrow>
        nextRef h \<le> nextRef h' \<and> prefix calmZones calmZones' \<and> prefix stressZones stressZones'
        \<and> set calmZones' \<subseteq> set calmZones \<union> {nextRef h ..< nextRef h'}
        \<and> set stressZones' \<subseteq> set stressZones \<union> {nextRef h ..< nextRef h'}
        \<and> (\<forall>r < nextRef h.
              sz_stressCount (stressObj h r) \<le> sz_stressCount (stressObj h' r)
            \<and> lastStressed (stressObj h r) \<le> lastStressed (stressObj h' r)
            \<and> (stressScore (stressObj h r) \<le> 1 \<longrightarrow> stressScore (stressObj h' r) \<le> 1)
            \<and> sz_id (stressObj h' r) = sz_id (stressObj h r)
            \<and> sz_center (stressObj h' r) = sz_center (stressObj h r)
            \<and> sz_radius (stressObj h' r) = sz_radius (stressObj h r)
            \<and> visitCount (calmObj h r) \<le> visitCount (calmObj h' r)
            \<and> lastVisited (calmObj h r) \<le> lastVisited (calmObj h' r)
            \<and> (calmScore (calmObj h r) \<le> 1 \<longrightarrow> calmScore (calmObj h' r) \<le> 1)
            \<and> cz_id (calmObj h' r) = cz_id (calmObj h r)
            \<and> cz_center (calmObj h' r) = cz_center (calmObj h r)
            \<and> cz_radius (calmObj h' r) = cz_radius (calmObj h r)))"

section \<open>Example data\<close>

definition locA :: Location where
  "locA = \<lparr>latitude = 0, longitude = 0, accuracy = None, timestamp = 0\<rparr>"

definition locB :: Location where
  "locB = \<lparr>latitude = 90, longitude = 0, accuracy = None, timestamp = 0\<rparr>"

definition entry1 :: MoodEntry where
  "entry1 = \<lparr>me_id = ''e1'', location = locA, mood = stressed, noiseLevel = 70,
             me_timestamp = 100, me_notes = None\<rparr>"

definition entry2 :: MoodEntry where
  "entry2 = \<lparr>me_id = ''e2'', location = locB, mood = calm, noiseLevel = 40,
             me_timestamp = 200, me_notes = None\<rparr>"

definition entry3 :: MoodEntry where
  "entry3 = \<lparr>me_id = ''e3'', location = locA, mood = stressed, noiseLevel = 65,
             me_timestamp = 300, me_notes = None\<rparr>"

definition clusterA :: Cluster where
  "clusterA = \<lparr>center = locA, entries = [entry1, entry3]\<rparr>"

definition clusterB :: Cluster where
  "clusterB = \<lparr>center = locB, entries = [entry2]\<rparr>"

definition session1 :: WalkSession where
  "session1 = \<lparr>ws_id = ''s1'', startTime = 0, endTime = Some 400,
               moodEntries = [entry1, entry2, entry3], totalDistance = None,
               averageNoise = None, stressCount = 2, calmCount = 1, neutralCount = 0,
               summary = None\<rparr>"

definition zoneS0 :: StressZone where
  "zoneS0 = \<lparr>sz_id = ''stress_old'', sz_center = locA, sz_radius = 30, stressScore = 0.95,
             sz_stressCount = 5, lastStressed = 150\<rparr>"

definition zoneC0 :: CalmZone where
  "zoneC0 = \<lparr>cz_id = ''calm_old'', cz_center = locB, cz_radius = 30, calmScore = 0.8,
             visitCount = 4, lastVisited = 120\<rparr>"

text \<open>A heap with nothing allocated, and one whose address 0 holds the stress zone
  \<open>zoneS0\<close> and whose address 1 holds the calm zone \<open>zoneC0\<close>.\<close>

definition heap0 :: heap where
  "heap0 = \<lparr>calmObj = (\<lambda>_. zoneC0), stressObj = (\<lambda>_. zoneS0), nextRef = 0\<rparr>"

definition heap1 :: heap where
  "heap1 = \<lparr>calmObj = (\<lambda>_. zoneC0), stressObj = (\<lambda>_. zoneS0), nextRef = 2\<rparr>"

definition locC :: Location where
  "locC = \<lparr>latitude = 0, longitude = 180, accuracy = None, timestamp = 0\<rparr>"

text \<open>Two instances of the double arithmetic: the one that computes exactly, and one
  whose sine returns a little too much.\<close>

definition exact :: Doubles where
  "exact = \<lparr>fl = (\<lambda>x. x), Math_PI = pi, Math_sin = sin, Math_cos = cos, Math_atan2 = atan2\<rparr>"

definition sineHigh :: Doubles where
  "sineHigh = \<lparr>fl = (\<lambda>x. x), Math_PI = pi, Math_sin = (\<lambda>x. sin x + 1 / 10 ^ 16),
               Math_cos = cos, Math_atan2 = atan2\<rparr>"

definition point0 :: RoutePoint where
  "point0 = \<lparr>latitude = 0, longitude = 0\<rparr>"



definition session0 :: WalkSession where
  "session0 = \<lparr>ws_id = ''s0'', startTime = 0, endTime = Some 10, moodEntries = [],
               totalDistance = None, averageNoise = None, stressCount = 0, calmCount = 0,
               neutralCount = 0, summary = None\<rparr>"

definition session2 :: WalkSession where
  "session2 = \<lparr>ws_id = ''s2'', startTime = 0, endTime = Some 400,
               moodEntries = [entry1, entry3], totalDistance = None,
               averageNoise = None, stressCount = 2, calmCount = 0, neutralCount = 0,
               summary = None\<rparr>"

section \<open>Distances of the example data\<close>

lemma atan2_zero_one: "atan2 0 1 = 0"
  by (simp add: atan2_def)

lemma calculateDistance_same_point:
  "latitude a = latitude b \<Longrightarrow> longitude a = longitude b \<Longrightarrow> calculateDistance a b = 0"
  by (simp add: calculateDistance_def atan2_zero_one)

lemma atan2_diag: "0 < x \<Longrightarrow> atan2 x x = pi / 4"
  by (simp add: atan2_def arctan_one)

lemma calculateDistance_locA_locB: "calculateDistance locA locB = 6371000 * (pi / 2)"
proof -
  have s: "sin (pi / 4) * sin (pi / 4) = 1 / 2"
    by (simp add: sin_45 real_sqrt_mult_self)
  have "calculateDistance locA locB
          = 6371000 * (2 * atan2 (sqrt (sin (pi / 4) * sin (pi / 4)))
                                 (sqrt (1 - sin (pi / 4) * sin (pi / 4))))"
    by (simp add: calculateDistance_def locA_def locB_def Let_def del: real_sqrt_abs2 real_sqrt_mult_self)
  also have "\<dots> = 6371000 * (2 * atan2 (sqrt (1/2)) (sqrt (1/2)))"
    unfolding s by simp
  also have "\<dots> = 6371000 * (pi / 2)"
    by (simp add: atan2_diag)
  finally show ?thesis .
qed

lemma calculateDistance_locB_locA: "calculateDistance locB locA = 6371000 * (pi / 2)"
proof -
  have s: "sin (pi / 4) * sin (pi / 4) = 1 / 2"
    by (simp add: sin_45 real_sqrt_mult_self)
  have "calculateDistance locB locA
          = 6371000 * (2 * atan2 (sqrt (sin (pi / 4) * sin (pi / 4)))
                                 (sqrt (1 - sin (pi / 4) * sin (pi / 4))))"
    by (simp add: calculateDistance_def locA_def locB_def Let_def del: real_sqrt_abs2 real_sqrt_mult_self)
  also have "\<dots> = 6371000 * (2 * atan2 (sqrt (1/2)) (sqrt (1/2)))"
    unfolding s by simp
  also have "\<dots> = 6371000 * (pi / 2)"
    by (simp add: atan2_diag)
  finally show ?thesis .
qed

lemma example_distances:
  "calculateDistance locA locA = 0" "calculateDistance locB locB = 0"
  by (simp_all add: calculateDistance_same_point)

section \<open>Clustering is a partition\<close>

lemma fold_addNearby:
  "fold (addNearby e r) L (ms, P) = (ms', P') \<Longrightarrow>
   \<exists>added. ms' = ms @ added \<and> P' = P \<union> me_id ` set added \<and> set added \<subseteq> set L
      \<and> distinct (map me_id added) \<and> me_id ` set added \<inter> insert (me_id e) P = {}"
proof (induction L arbitrary: ms P)
  case Nil
  then show ?case by simp
next
  case (Cons x L)
  show ?case
  proof (cases "me_id x = me_id e \<or> me_id x \<in> P
                \<or> \<not> calculateDistance (location e) (location x) \<le> r")
    case True
    then have "addNearby e r x (ms, P) = (ms, P)" by (auto simp: addNearby_def)
    with Cons.prems have "fold (addNearby e r) L (ms, P) = (ms', P')" by simp
    from Cons.IH[OF this] show ?thesis by auto
  next
    case False
    then have "addNearby e r x (ms, P) = (ms @ [x], insert (me_id x) P)"
      by (auto simp: addNearby_def)
    with Cons.prems have "fold (addNearby e r) L (ms @ [x], insert (me_id x) P) = (ms', P')"
      by simp
    from Cons.IH[OF this] obtain added where a: "ms' = (ms @ [x]) @ added"
      "P' = insert (me_id x) P \<union> me_id ` set added" "set added \<subseteq> set L"
      "distinct (map me_id added)"
      "me_id ` set added \<inter> insert (me_id e) (insert (me_id x) P) = {}"
      by blast
    have "ms' = ms @ (x # added)" using a by simp
    moreover have "P' = P \<union> me_id ` set (x # added)" using a by auto
    moreover have "set (x # added) \<subseteq> set (x # L)" using a by auto
    moreover have "distinct (map me_id (x # added))" using a by auto
    moreover have "me_id ` set (x # added) \<inter> insert (me_id e) P = {}" using a False by auto
    ultimately show ?thesis by blast
  qed
qed

lemma clusterStep_inv:
  assumes "cluster_inv E s" "e \<in> set E"
  shows "cluster_inv E (clusterStep E r e s) \<and> me_id e \<in> snd (clusterStep E r e s)
         \<and> snd s \<subseteq> snd (clusterStep E r e s)"
proof (cases s)
  case (Pair cs P)
  show ?thesis
  proof (cases "me_id e \<in> P")
    case True
    then show ?thesis using assms Pair by (simp add: clusterStep_def)
  next
    case False
    obtain ms' P' where f: "fold (addNearby e r) E ([e], P) = (ms', P')" by force
    from fold_addNearby[OF f] obtain added where a: "ms' = [e] @ added"
      "P' = P \<union> me_id ` set added" "set added \<subseteq> set E"
      "distinct (map me_id added)" "me_id ` set added \<inter> insert (me_id e) P = {}"
      by blast
    let ?c = "\<lparr>center = location e, entries = e # added\<rparr>"
    have step: "clusterStep E r e s = (cs @ [?c], insert (me_id e) P')"
      using False Pair f a by (simp add: clusterStep_def)
    have inv: "P = me_id ` set (members cs)" "distinct (map me_id (members cs))"
      "set (members cs) \<subseteq> set E"
      "list_all (\<lambda>c. entries c \<noteq> [] \<and> center c = location (hd (entries c)) \<and>
                       hd (entries c) \<in> set E) cs"
      using assms(1) Pair by (auto simp: cluster_inv_def)
    have m: "members (cs @ [?c]) = members cs @ e # added"
      by (simp add: members_def)
    have "cluster_inv E (cs @ [?c], insert (me_id e) P')"
      unfolding cluster_inv_def split m
    proof (intro conjI)
      show "insert (me_id e) P' = me_id ` set (members cs @ e # added)" using a inv by auto
      show "distinct (map me_id (members cs @ e # added))" using a inv False by auto
      show "set (members cs @ e # added) \<subseteq> set E" using a inv assms(2) by auto
      show "list_all (\<lambda>c. entries c \<noteq> [] \<and> center c = location (hd (entries c)) \<and>
                       hd (entries c) \<in> set E) (cs @ [?c])"
        using inv assms(2) by simp
    qed
    then show ?thesis using step a Pair by auto
  qed
qed

lemma fold_clusterStep_inv:
  "cluster_inv E s \<Longrightarrow> set L \<subseteq> set E \<Longrightarrow>
   cluster_inv E (fold (clusterStep E r) L s)
     \<and> me_id ` set L \<subseteq> snd (fold (clusterStep E r) L s)
     \<and> snd s \<subseteq> snd (fold (clusterStep E r) L s)"
proof (induction L arbitrary: s)
  case Nil
  then show ?case by simp
next
  case (Cons x L)
  from clusterStep_inv[of E s x r] Cons.prems
  have 1: "cluster_inv E (clusterStep E r x s)" "me_id x \<in> snd (clusterStep E r x s)"
    "snd s \<subseteq> snd (clusterStep E r x s)"
    by auto
  from Cons.IH[OF 1(1)] Cons.prems(2)
  have 2: "cluster_inv E (fold (clusterStep E r) L (clusterStep E r x s))"
     "me_id ` set L \<subseteq> snd (fold (clusterStep E r) L (clusterStep E r x s))"
     "snd (clusterStep E r x s) \<subseteq> snd (fold (clusterStep E r) L (clusterStep E r x s))"
    by auto
  show ?case using 1 2 by auto
qed

lemma clusterNearbyEntries_props:
  "set (members (clusterNearbyEntries E r)) \<subseteq> set E"
  "distinct (map me_id (members (clusterNearbyEntries E r)))"
  "me_id ` set E \<subseteq> me_id ` set (members (clusterNearbyEntries E r))"
  "list_all (\<lambda>c. entries c \<noteq> [] \<and> center c = location (hd (entries c)) \<and>
                  hd (entries c) \<in> set E) (clusterNearbyEntries E r)"
proof -
  have i: "cluster_inv E ([], {})" by (simp add: cluster_inv_def members_def)
  from fold_clusterStep_inv[OF i, of E r]
  have "cluster_inv E (fold (clusterStep E r) E ([], {}))"
    "me_id ` set E \<subseteq> snd (fold (clusterStep E r) E ([], {}))"
    by auto
  then show "set (members (clusterNearbyEntries E r)) \<subseteq> set E"
    "distinct (map me_id (members (clusterNearbyEntries E r)))"
    "me_id ` set E \<subseteq> me_id ` set (members (clusterNearbyEntries E r))"
    "list_all (\<lambda>c. entries c \<noteq> [] \<and> center c = location (hd (entries c)) \<and>
                  hd (entries c) \<in> set E) (clusterNearbyEntries E r)"
    by (auto simp: cluster_inv_def clusterNearbyEntries_def split: prod.splits)
qed

lemma cluster_nonempty:
  "c \<in> set (clusterNearbyEntries E r) \<Longrightarrow> entries c \<noteq> []"
  using clusterNearbyEntries_props(4)[of E r] by (auto simp: list_all_iff)

lemma cluster_center_anchor:
  "c \<in> set (clusterNearbyEntries E r) \<Longrightarrow> center c = location (hd (entries c))"
  using clusterNearbyEntries_props(4)[of E r] by (auto simp: list_all_iff)

lemma clusterNearbyEntries_mset:
  assumes "distinct (map me_id E)"
  shows "mset (members (clusterNearbyEntries E r)) = mset E"
proof -
  let ?M = "members (clusterNearbyEntries E r)"
  have inj: "inj_on me_id (set E)" using assms by (simp add: distinct_map)
  have "set E \<subseteq> set ?M"
  proof
    fix e assume e: "e \<in> set E"
    then have "me_id e \<in> me_id ` set ?M" using clusterNearbyEntries_props(3)[of E r] by auto
    then obtain e' where e': "e' \<in> set ?M" "me_id e' = me_id e" by auto
    then have "e' \<in> set E" using clusterNearbyEntries_props(1)[of E r] by auto
    with inj e e' have "e' = e" by (auto dest: inj_onD)
    with e' show "e \<in> set ?M" by simp
  qed
  then have "set ?M = set E" using clusterNearbyEntries_props(1)[of E r] by auto
  moreover have "distinct ?M" using clusterNearbyEntries_props(2)[of E r]
    by (simp add: distinct_map)
  moreover have "distinct E" using assms by (simp add: distinct_map)
  ultimately show ?thesis by (simp add: set_eq_iff_mset_eq_distinct)
qed

lemma example_clusters:
  "clusterNearbyEntries [entry1, entry2, entry3] 30 =
     [\<lparr>center = locA, entries = [entry1, entry3]\<rparr>, \<lparr>center = locB, entries = [entry2]\<rparr>]"
  using pi_ge_two
  by (simp add: clusterNearbyEntries_def clusterStep_def addNearby_def entry1_def entry2_def
      entry3_def example_distances calculateDistance_locA_locB calculateDistance_locB_locA)

text \<open>
  Claim C3. For every list of mood entries with pairwise distinct ids and every radius,
  \<open>clusterNearbyEntries\<close> returns a partition of its input: the members of all clusters
  together are exactly the input entries, none dropped and none duplicated, so every input
  entry lies in exactly one returned cluster; every cluster is non-empty; and the center
  of a cluster is the location of its anchor, the input entry that started the cluster and
  is its first member. The center is never recomputed from the members.
\<close>

theorem clusterNearbyEntries_partition:
  assumes "distinct (map me_id allEntries)"
  shows "mset (concat (map entries (clusterNearbyEntries allEntries radiusMeters))) = mset allEntries
       \<and> distinct (concat (map entries (clusterNearbyEntries allEntries radiusMeters)))
       \<and> (\<forall>e \<in> set allEntries.
            \<exists>!c. c \<in> set (clusterNearbyEntries allEntries radiusMeters) \<and> e \<in> set (entries c))
       \<and> (\<forall>c \<in> set (clusterNearbyEntries allEntries radiusMeters).
            entries c \<noteq> [] \<and> hd (entries c) \<in> set allEntries
            \<and> center c = location (hd (entries c)))"
proof -
  let ?cs = "clusterNearbyEntries allEntries radiusMeters"
  have ms: "mset (concat (map entries ?cs)) = mset allEntries"
    using clusterNearbyEntries_mset[OF assms, of radiusMeters] by (simp add: members_def)
  have d: "distinct (concat (map entries ?cs))"
    using clusterNearbyEntries_props(2)[of allEntries radiusMeters]
    by (simp add: members_def distinct_map)
  have anchors: "\<forall>c \<in> set ?cs. entries c \<noteq> [] \<and> hd (entries c) \<in> set allEntries
            \<and> center c = location (hd (entries c))"
    using clusterNearbyEntries_props(4)[of allEntries radiusMeters] by (auto simp: list_all_iff)
  have seteq: "set (concat (map entries ?cs)) = set allEntries"
    using ms by (metis set_mset_mset)
  have uniq: "\<exists>!c. c \<in> set ?cs \<and> e \<in> set (entries c)" if e: "e \<in> set allEntries" for e
  proof -
    from e seteq obtain c where c: "c \<in> set ?cs" "e \<in> set (entries c)" by auto
    have "c' = c" if c': "c' \<in> set ?cs" "e \<in> set (entries c')" for c'
    proof -
      have "entries c' = entries c"
      proof (rule ccontr)
        assume "entries c' \<noteq> entries c"
        moreover have "entries c' \<in> set (map entries ?cs)" "entries c \<in> set (map entries ?cs)"
          using c c' by auto
        ultimately have "set (entries c') \<inter> set (entries c) = {}"
          using d unfolding distinct_concat_iff by blast
        with c c' show False by auto
      qed
      moreover have "center c' = center c" using anchors c c' calculation by auto
      ultimately show ?thesis by simp
    qed
    with c show ?thesis by blast
  qed
  show ?thesis using ms d uniq anchors by blast
qed



theorem clusterNearbyEntries_partition_witness:
  "distinct (map me_id [entry1, entry2, entry3])
   \<and> clusterNearbyEntries [entry1, entry2, entry3] 30 =
       [\<lparr>center = locA, entries = [entry1, entry3]\<rparr>, \<lparr>center = locB, entries = [entry2]\<rparr>]
   \<and> mset (concat (map entries (clusterNearbyEntries [entry1, entry2, entry3] 30)))
       = mset [entry1, entry2, entry3]
   \<and> distinct (concat (map entries (clusterNearbyEntries [entry1, entry2, entry3] 30)))"
proof -
  have d: "distinct (map me_id [entry1, entry2, entry3])"
    by (simp add: entry1_def entry2_def entry3_def)
  from clusterNearbyEntries_partition[OF d, of 30] d example_clusters show ?thesis by blast
qed

section \<open>Zone classification and merge\<close>

lemma Math_max_eq_Max:
  assumes "ts \<noteq> []"
  shows "Math_max ts = Max (set ts)"
proof (cases ts)
  case Nil
  with assms show ?thesis by simp
next
  case (Cons t ts')
  have "Max (set (t # ts')) = fold max ts' t" by (rule Max.set_eq_fold)
  then show ?thesis using Cons by simp
qed

lemma Math_max_timestamps:
  "es \<noteq> [] \<Longrightarrow> Math_max (map me_timestamp es) = Max (me_timestamp ` set es)"
  using Math_max_eq_Max[of "map me_timestamp es"] by simp

lemma filter_moods_le:
  "length (filter (\<lambda>e. mood e = stressed) es) + length (filter (\<lambda>e. mood e = calm) es) \<le> length es"
  by (induction es) auto

lemma rates_exclusive:
  assumes "calmRate c > 0.6"
  shows "\<not> stressRate c > 0.6"
proof
  assume s: "stressRate c > 0.6"
  let ?n = "length (entries c)"
  let ?s = "length (filter (\<lambda>e. mood e = stressed) (entries c))"
  let ?k = "length (filter (\<lambda>e. mood e = calm) (entries c))"
  have n: "0 < ?n" using s by (cases "entries c") (auto simp: stressRate_def)
  have "0.6 * real ?n < real ?s" using s n by (simp add: stressRate_def field_simps)
  moreover have "0.6 * real ?n < real ?k" using assms n by (simp add: calmRate_def field_simps)
  moreover have "real ?s + real ?k \<le> real ?n" using filter_moods_le[of "entries c"]
    by (metis of_nat_add of_nat_le_iff)
  ultimately show False using n by simp
qed

lemma example_rates:
  "stressRate clusterA = 1" "calmRate clusterA = 0" "stressRate clusterB = 0" "calmRate clusterB = 1"
  by (simp_all add: stressRate_def calmRate_def clusterA_def clusterB_def entry1_def entry2_def entry3_def)

lemma example_find_stress:
  "find (\<lambda>zone. calculateDistance (sz_center (stressObj heap1 zone)) (center clusterA) < 50) [0]
     = Some 0"
  by (simp add: heap1_def zoneS0_def clusterA_def calculateDistance_same_point)

text \<open>
  Claim C1. \<open>updateZonesFromSession\<close> clusters the session's entries at radius 30 and runs
  the loop body \<open>processCluster\<close> on each cluster in turn, for every session and every
  pair of stores. A cluster with fewer than 2 members, or with neither rate above 0.6,
  leaves the heap and both arrays as they are. A cluster with at least 2 members and stress
  rate above 0.6 touches only the stress store (the stress test comes first), one with
  calm rate above 0.6 only the calm store. When such a cluster finds no zone of its kind
  in the working array (the input array followed by the zones created for earlier clusters
  of the same call) closer than 50 m to its center, exactly one zone object is allocated
  and appended to that array, with radius 30, score the cluster's rate, count the number
  of members and last timestamp the maximum of the members' timestamps.
\<close>

theorem updateZones_cluster_rule:
  "updateZonesFromSession freshId h session calmZones stressZones
     = fold (processCluster freshId) (clusterNearbyEntries (moodEntries session) 30)
         (h, calmZones, stressZones)
   \<and> (\<not> (length (entries c) \<ge> 2 \<and> (stressRate c > 0.6 \<or> calmRate c > 0.6))
        \<longrightarrow> processCluster freshId c (h, calmZones, stressZones) = (h, calmZones, stressZones))
   \<and> (length (entries c) \<ge> 2 \<and> stressRate c > 0.6
        \<longrightarrow> (case processCluster freshId c (h, calmZones, stressZones) of
               (h', calmZones', stressZones') \<Rightarrow> calmZones' = calmZones \<and> calmObj h' = calmObj h))
   \<and> (length (entries c) \<ge> 2 \<and> calmRate c > 0.6
        \<longrightarrow> (case processCluster freshId c (h, calmZones, stressZones) of
               (h', calmZones', stressZones') \<Rightarrow> stressZones' = stressZones \<and> stressObj h' = stressObj h))
   \<and> (length (entries c) \<ge> 2 \<and> stressRate c > 0.6
        \<and> (\<forall>z \<in> set stressZones. \<not> calculateDistance (sz_center (stressObj h z)) (center c) < 50)
        \<longrightarrow> processCluster freshId c (h, calmZones, stressZones) =
              (h\<lparr>stressObj := (stressObj h)(nextRef h :=
                    \<lparr>sz_id = ''stress_'' @ freshId (nextRef h),
                     sz_center = center c,
                     sz_radius = 30,
                     stressScore = stressRate c,
                     sz_stressCount = length (entries c),
                     lastStressed = Max (me_timestamp ` set (entries c))\<rparr>),
                  nextRef := Suc (nextRef h)\<rparr>,
               calmZones, stressZones @ [nextRef h]))
   \<and> (length (entries c) \<ge> 2 \<and> calmRate c > 0.6
        \<and> (\<forall>z \<in> set calmZones. \<not> calculateDistance (cz_center (calmObj h z)) (center c) < 50)
        \<longrightarrow> processCluster freshId c (h, calmZones, stressZones) =
              (h\<lparr>calmObj := (calmObj h)(nextRef h :=
                    \<lparr>cz_id = ''calm_'' @ freshId (nextRef h),
                     cz_center = center c,
                     cz_radius = 30,
                     calmScore = calmRate c,
                     visitCount = length (entries c),
                     lastVisited = Max (me_timestamp ` set (entries c))\<rparr>),
                  nextRef := Suc (nextRef h)\<rparr>,
               calmZones @ [nextRef h], stressZones))"
proof (intro conjI impI)
  show "updateZonesFromSession freshId h session calmZones stressZones
     = fold (processCluster freshId) (clusterNearbyEntries (moodEntries session) 30)
         (h, calmZones, stressZones)"
    by (simp add: updateZonesFromSession_def)
next
  assume "\<not> (length (entries c) \<ge> 2 \<and> (stressRate c > 0.6 \<or> calmRate c > 0.6))"
  then show "processCluster freshId c (h, calmZones, stressZones) = (h, calmZones, stressZones)"
    by (auto simp: processCluster_def)
next
  assume "length (entries c) \<ge> 2 \<and> stressRate c > 0.6"
  then show "case processCluster freshId c (h, calmZones, stressZones) of
               (h', calmZones', stressZones') \<Rightarrow> calmZones' = calmZones \<and> calmObj h' = calmObj h"
    by (simp add: processCluster_def split: option.splits)
next
  assume a: "length (entries c) \<ge> 2 \<and> calmRate c > 0.6"
  then have "\<not> stressRate c > 0.6" using rates_exclusive by blast
  with a show "case processCluster freshId c (h, calmZones, stressZones) of
               (h', calmZones', stressZones') \<Rightarrow> stressZones' = stressZones \<and> stressObj h' = stressObj h"
    by (simp add: processCluster_def split: option.splits)
next
  assume a: "length (entries c) \<ge> 2 \<and> stressRate c > 0.6
        \<and> (\<forall>z \<in> set stressZones. \<not> calculateDistance (sz_center (stressObj h z)) (center c) < 50)"
  then have f: "find (\<lambda>zone. calculateDistance (sz_center (stressObj h zone)) (center c) < 50) stressZones = None"
    by (simp add: find_None_iff)
  have ne: "entries c \<noteq> []" using a by auto
  show "processCluster freshId c (h, calmZones, stressZones) =
              (h\<lparr>stressObj := (stressObj h)(nextRef h :=
                    \<lparr>sz_id = ''stress_'' @ freshId (nextRef h),
                     sz_center = center c,
                     sz_radius = 30,
                     stressScore = stressRate c,
                     sz_stressCount = length (entries c),
                     lastStressed = Max (me_timestamp ` set (entries c))\<rparr>),
                  nextRef := Suc (nextRef h)\<rparr>,
               calmZones, stressZones @ [nextRef h])"
    using a f by (simp add: processCluster_def Math_max_timestamps[OF ne])
next
  assume a: "length (entries c) \<ge> 2 \<and> calmRate c > 0.6
        \<and> (\<forall>z \<in> set calmZones. \<not> calculateDistance (cz_center (calmObj h z)) (center c) < 50)"
  then have f: "find (\<lambda>zone. calculateDistance (cz_center (calmObj h zone)) (center c) < 50) calmZones = None"
    by (simp add: find_None_iff)
  have ne: "entries c \<noteq> []" using a by auto
  have ns: "\<not> stressRate c > 0.6" using a rates_exclusive by blast
  show "processCluster freshId c (h, calmZones, stressZones) =
              (h\<lparr>calmObj := (calmObj h)(nextRef h :=
                    \<lparr>cz_id = ''calm_'' @ freshId (nextRef h),
                     cz_center = center c,
                     cz_radius = 30,
                     calmScore = calmRate c,
                     visitCount = length (entries c),
                     lastVisited = Max (me_timestamp ` set (entries c))\<rparr>),
                  nextRef := Suc (nextRef h)\<rparr>,
               calmZones @ [nextRef h], stressZones)"
    using a f ns by (simp add: processCluster_def Math_max_timestamps[OF ne])
qed


theorem updateZones_cluster_rule_witness:
  "length (entries clusterA) \<ge> 2 \<and> stressRate clusterA > 0.6
   \<and> processCluster decimal clusterA (heap0, [], []) =
       (heap0\<lparr>stressObj := (stressObj heap0)(0 :=
            \<lparr>sz_id = ''stress_0'', sz_center = locA, sz_radius = 30, stressScore = 1,
             sz_stressCount = 2, lastStressed = 300\<rparr>),
          nextRef := 1\<rparr>, [], [0])
   \<and> processCluster decimal clusterB (heap0, [], []) = (heap0, [], [])
   \<and> updateZonesFromSession decimal heap0 session1 [] [] =
       (heap0\<lparr>stressObj := (stressObj heap0)(0 :=
            \<lparr>sz_id = ''stress_0'', sz_center = locA, sz_radius = 30, stressScore = 1,
             sz_stressCount = 2, lastStressed = 300\<rparr>),
          nextRef := 1\<rparr>, [], [0])"
proof -
  have a: "length (entries clusterA) \<ge> 2" "stressRate clusterA > 0.6"
    by (simp_all add: example_rates) (simp add: clusterA_def)
  have b: "\<not> (length (entries clusterB) \<ge> 2 \<and> (stressRate clusterB > 0.6 \<or> calmRate clusterB > 0.6))"
    by (simp add: clusterB_def)
  have m: "Max (me_timestamp ` set (entries clusterA)) = 300"
    by (simp add: clusterA_def entry1_def entry3_def)
  have s: "moodEntries session1 = [entry1, entry2, entry3]" by (simp add: session1_def)
  note t1 = updateZones_cluster_rule[of decimal heap0 session1 "[]" "[]" clusterA]
  note t2 = updateZones_cluster_rule[of decimal heap0 session1 "[]" "[]" clusterB]
  have n: "\<forall>z \<in> set ([]::ref list).
             \<not> calculateDistance (sz_center (stressObj heap0 z)) (center clusterA) < 50"
    by simp
  have c: "center clusterA = locA" "length (entries clusterA) = 2" "nextRef heap0 = 0"
    by (simp_all add: clusterA_def heap0_def)
  from t1 a n have "processCluster decimal clusterA (heap0, [], []) =
              (heap0\<lparr>stressObj := (stressObj heap0)(nextRef heap0 :=
                    \<lparr>sz_id = ''stress_'' @ decimal (nextRef heap0),
                     sz_center = center clusterA,
                     sz_radius = 30,
                     stressScore = stressRate clusterA,
                     sz_stressCount = length (entries clusterA),
                     lastStressed = Max (me_timestamp ` set (entries clusterA))\<rparr>),
                  nextRef := Suc (nextRef heap0)\<rparr>,
               [], [] @ [nextRef heap0])"
    by blast
  then have 1: "processCluster decimal clusterA (heap0, [], []) =
       (heap0\<lparr>stressObj := (stressObj heap0)(0 :=
            \<lparr>sz_id = ''stress_0'', sz_center = locA, sz_radius = 30, stressScore = 1,
             sz_stressCount = 2, lastStressed = 300\<rparr>),
          nextRef := 1\<rparr>, [], [0])"
    by (simp add: m c example_rates digitChar_def decimal.simps)
  have 2: "processCluster decimal clusterB (heap0, [], []) = (heap0, [], [])"
    using t2 b by blast
  let ?h = "heap0\<lparr>stressObj := (stressObj heap0)(0 :=
            \<lparr>sz_id = ''stress_0'', sz_center = locA, sz_radius = 30, stressScore = 1,
             sz_stressCount = 2, lastStressed = 300\<rparr>),
          nextRef := 1\<rparr>"
  have 3: "updateZonesFromSession decimal heap0 session1 [] [] =
       fold (processCluster decimal) [clusterA, clusterB] (heap0, [], [])"
    using t1 s example_clusters by (simp add: clusterA_def clusterB_def)
  have 4: "processCluster decimal clusterB (?h, [], [0]) = (?h, [], [0])"
    using updateZones_cluster_rule[of decimal ?h session1 "[]" "[0]" clusterB] b by blast
  have 5: "updateZonesFromSession decimal heap0 session1 [] [] = (?h, [], [0])"
    unfolding 3 using 1 4 by simp
  show ?thesis using a 1 2 5 by blast
qed

text \<open>
  Claim C2. When a qualifying cluster matches an existing zone of its kind (the first zone of
  the working array whose center is closer than 50 m to the cluster's center, as \<open>find\<close>
  returns it), the merge adds the number of members to the zone's count, which therefore
  does not decrease; sets the score to \<open>min 1 (score + 0.1)\<close>, which is at most 1; sets
  the last timestamp to the maximum of its old value and the members' maximum timestamp,
  which therefore does not decrease; and creates no zone: both arrays and the allocation
  pointer are unchanged, and no other zone object is written.
\<close>

theorem merge_into_existing_zone:
  "(length (entries c) \<ge> 2 \<and> stressRate c > 0.6
      \<and> find (\<lambda>zone. calculateDistance (sz_center (stressObj h zone)) (center c) < 50) stressZones
          = Some z
    \<longrightarrow> (case processCluster freshId c (h, calmZones, stressZones) of
           (h', calmZones', stressZones') \<Rightarrow>
             z \<in> set stressZones
           \<and> calculateDistance (sz_center (stressObj h z)) (center c) < 50
           \<and> sz_stressCount (stressObj h' z) = sz_stressCount (stressObj h z) + length (entries c)
           \<and> sz_stressCount (stressObj h' z) \<ge> sz_stressCount (stressObj h z)
           \<and> stressScore (stressObj h' z) = min 1 (stressScore (stressObj h z) + 0.1)
           \<and> stressScore (stressObj h' z) \<le> 1
           \<and> lastStressed (stressObj h' z)
               = max (lastStressed (stressObj h z)) (Max (me_timestamp ` set (entries c)))
           \<and> lastStressed (stressObj h' z) \<ge> lastStressed (stressObj h z)
           \<and> sz_id (stressObj h' z) = sz_id (stressObj h z)
           \<and> sz_center (stressObj h' z) = sz_center (stressObj h z)
           \<and> sz_radius (stressObj h' z) = sz_radius (stressObj h z)
           \<and> (\<forall>r. r \<noteq> z \<longrightarrow> stressObj h' r = stressObj h r)
           \<and> calmObj h' = calmObj h
           \<and> nextRef h' = nextRef h \<and> stressZones' = stressZones \<and> calmZones' = calmZones))
   \<and> (length (entries c) \<ge> 2 \<and> calmRate c > 0.6
      \<and> find (\<lambda>zone. calculateDistance (cz_center (calmObj h zone)) (center c) < 50) calmZones
          = Some z
    \<longrightarrow> (case processCluster freshId c (h, calmZones, stressZones) of
           (h', calmZones', stressZones') \<Rightarrow>
             z \<in> set calmZones
           \<and> calculateDistance (cz_center (calmObj h z)) (center c) < 50
           \<and> visitCount (calmObj h' z) = visitCount (calmObj h z) + length (entries c)
           \<and> visitCount (calmObj h' z) \<ge> visitCount (calmObj h z)
           \<and> calmScore (calmObj h' z) = min 1 (calmScore (calmObj h z) + 0.1)
           \<and> calmScore (calmObj h' z) \<le> 1
           \<and> lastVisited (calmObj h' z)
               = max (lastVisited (calmObj h z)) (Max (me_timestamp ` set (entries c)))
           \<and> lastVisited (calmObj h' z) \<ge> lastVisited (calmObj h z)
           \<and> cz_id (calmObj h' z) = cz_id (calmObj h z)
           \<and> cz_center (calmObj h' z) = cz_center (calmObj h z)
           \<and> cz_radius (calmObj h' z) = cz_radius (calmObj h z)
           \<and> (\<forall>r. r \<noteq> z \<longrightarrow> calmObj h' r = calmObj h r)
           \<and> stressObj h' = stressObj h
           \<and> nextRef h' = nextRef h \<and> stressZones' = stressZones \<and> calmZones' = calmZones))"
proof (intro conjI impI)
  assume a: "length (entries c) \<ge> 2 \<and> stressRate c > 0.6
      \<and> find (\<lambda>zone. calculateDistance (sz_center (stressObj h zone)) (center c) < 50) stressZones
          = Some z"
  have ne: "entries c \<noteq> []" using a by auto
  have mem: "z \<in> set stressZones"
    "calculateDistance (sz_center (stressObj h z)) (center c) < 50"
    using a by (auto simp: find_Some_iff)
  show "case processCluster freshId c (h, calmZones, stressZones) of
           (h', calmZones', stressZones') \<Rightarrow>
             z \<in> set stressZones
           \<and> calculateDistance (sz_center (stressObj h z)) (center c) < 50
           \<and> sz_stressCount (stressObj h' z) = sz_stressCount (stressObj h z) + length (entries c)
           \<and> sz_stressCount (stressObj h' z) \<ge> sz_stressCount (stressObj h z)
           \<and> stressScore (stressObj h' z) = min 1 (stressScore (stressObj h z) + 0.1)
           \<and> stressScore (stressObj h' z) \<le> 1
           \<and> lastStressed (stressObj h' z)
               = max (lastStressed (stressObj h z)) (Max (me_timestamp ` set (entries c)))
           \<and> lastStressed (stressObj h' z) \<ge> lastStressed (stressObj h z)
           \<and> sz_id (stressObj h' z) = sz_id (stressObj h z)
           \<and> sz_center (stressObj h' z) = sz_center (stressObj h z)
           \<and> sz_radius (stressObj h' z) = sz_radius (stressObj h z)
           \<and> (\<forall>r. r \<noteq> z \<longrightarrow> stressObj h' r = stressObj h r)
           \<and> calmObj h' = calmObj h
           \<and> nextRef h' = nextRef h \<and> stressZones' = stressZones \<and> calmZones' = calmZones"
    using a mem by (simp add: processCluster_def Math_max_timestamps[OF ne])
next
  assume a: "length (entries c) \<ge> 2 \<and> calmRate c > 0.6
      \<and> find (\<lambda>zone. calculateDistance (cz_center (calmObj h zone)) (center c) < 50) calmZones
          = Some z"
  have ne: "entries c \<noteq> []" using a by auto
  have ns: "\<not> stressRate c > 0.6" using a rates_exclusive by blast
  have mem: "z \<in> set calmZones"
    "calculateDistance (cz_center (calmObj h z)) (center c) < 50"
    using a by (auto simp: find_Some_iff)
  show "case processCluster freshId c (h, calmZones, stressZones) of
           (h', calmZones', stressZones') \<Rightarrow>
             z \<in> set calmZones
           \<and> calculateDistance (cz_center (calmObj h z)) (center c) < 50
           \<and> visitCount (calmObj h' z) = visitCount (calmObj h z) + length (entries c)
           \<and> visitCount (calmObj h' z) \<ge> visitCount (calmObj h z)
           \<and> calmScore (calmObj h' z) = min 1 (calmScore (calmObj h z) + 0.1)
           \<and> calmScore (calmObj h' z) \<le> 1
           \<and> lastVisited (calmObj h' z)
               = max (lastVisited (calmObj h z)) (Max (me_timestamp ` set (entries c)))
           \<and> lastVisited (calmObj h' z) \<ge> lastVisited (calmObj h z)
           \<and> cz_id (calmObj h' z) = cz_id (calmObj h z)
           \<and> cz_center (calmObj h' z) = cz_center (calmObj h z)
           \<and> cz_radius (calmObj h' z) = cz_radius (calmObj h z)
           \<and> (\<forall>r. r \<noteq> z \<longrightarrow> calmObj h' r = calmObj h r)
           \<and> stressObj h' = stressObj h
           \<and> nextRef h' = nextRef h \<and> stressZones' = stressZones \<and> calmZones' = calmZones"
    using a ns mem by (simp add: processCluster_def Math_max_timestamps[OF ne])
qed

theorem merge_into_existing_zone_witness:
  "length (entries clusterA) \<ge> 2 \<and> stressRate clusterA > 0.6
   \<and> find (\<lambda>zone. calculateDistance (sz_center (stressObj heap1 zone)) (center clusterA) < 50) [0]
       = Some 0
   \<and> sz_stressCount (stressObj heap1 0) = 5
   \<and> stressScore (stressObj heap1 0) = 0.95
   \<and> lastStressed (stressObj heap1 0) = 150
   \<and> sz_stressCount (stressObj (fst (processCluster decimal clusterA (heap1, [1], [0]))) 0) = 7
   \<and> stressScore (stressObj (fst (processCluster decimal clusterA (heap1, [1], [0]))) 0) = 1
   \<and> lastStressed (stressObj (fst (processCluster decimal clusterA (heap1, [1], [0]))) 0) = 300
   \<and> snd (processCluster decimal clusterA (heap1, [1], [0])) = ([1], [0])"
proof -
  have a: "length (entries clusterA) \<ge> 2" "stressRate clusterA > 0.6"
    by (simp_all add: example_rates) (simp add: clusterA_def)
  have m: "Max (me_timestamp ` set (entries clusterA)) = 300" "length (entries clusterA) = 2"
    by (simp_all add: clusterA_def entry1_def entry3_def)
  have z: "sz_stressCount (stressObj heap1 0) = 5" "stressScore (stressObj heap1 0) = 0.95"
    "lastStressed (stressObj heap1 0) = 150"
    by (simp_all add: heap1_def zoneS0_def)
  obtain h' cz' sz' where p: "processCluster decimal clusterA (heap1, [1], [0]) = (h', cz', sz')"
    by (metis prod_cases3)
  from merge_into_existing_zone[where c = clusterA and h = heap1 and stressZones = "[0]" and z = 0
      and freshId = decimal and calmZones = "[1]"] a example_find_stress p
  have "sz_stressCount (stressObj h' 0) = sz_stressCount (stressObj heap1 0) + length (entries clusterA)"
    "stressScore (stressObj h' 0) = min 1 (stressScore (stressObj heap1 0) + 0.1)"
    "lastStressed (stressObj h' 0)
               = max (lastStressed (stressObj heap1 0)) (Max (me_timestamp ` set (entries clusterA)))"
    "sz' = [0]" "cz' = [1]"
    by simp_all
  then have "sz_stressCount (stressObj h' 0) = 7" "stressScore (stressObj h' 0) = 1"
    "lastStressed (stressObj h' 0) = 300" "sz' = [0]" "cz' = [1]"
    by (simp_all add: z m)
  then show ?thesis using a example_find_stress z p by simp
qed

text \<open>
  Over a whole call the zone objects of the input stores only change in this monotone way,
  and the returned arrays are the input arrays followed by the addresses of the zones
  created by the call.
\<close>

lemma zones_grow_refl: "zones_grow s s"
  by (cases s) (auto simp: zones_grow_def)

lemma zones_grow_trans:
  assumes "zones_grow s1 s2" "zones_grow s2 s3"
  shows "zones_grow s1 s3"
proof -
  obtain h1 c1 z1 where s1: "s1 = (h1, c1, z1)" by (cases s1)
  obtain h2 c2 z2 where s2: "s2 = (h2, c2, z2)" by (cases s2)
  obtain h3 c3 z3 where s3: "s3 = (h3, c3, z3)" by (cases s3)
  have a: "nextRef h1 \<le> nextRef h2" "prefix c1 c2" "prefix z1 z2"
    "set c2 \<subseteq> set c1 \<union> {nextRef h1 ..< nextRef h2}"
    "set z2 \<subseteq> set z1 \<union> {nextRef h1 ..< nextRef h2}"
    using assms(1) by (auto simp: zones_grow_def s1 s2)
  have b: "nextRef h2 \<le> nextRef h3" "prefix c2 c3" "prefix z2 z3"
    "set c3 \<subseteq> set c2 \<union> {nextRef h2 ..< nextRef h3}"
    "set z3 \<subseteq> set z2 \<union> {nextRef h2 ..< nextRef h3}"
    using assms(2) by (auto simp: zones_grow_def s2 s3)
  have 1: "nextRef h1 \<le> nextRef h3" "prefix c1 c3" "prefix z1 z3"
    using a b by (auto intro: prefix_order.trans)
  have 2: "set c3 \<subseteq> set c1 \<union> {nextRef h1 ..< nextRef h3}"
    "set z3 \<subseteq> set z1 \<union> {nextRef h1 ..< nextRef h3}"
    using a b by fastforce+
  have 3: "sz_stressCount (stressObj h1 r) \<le> sz_stressCount (stressObj h3 r)
            \<and> lastStressed (stressObj h1 r) \<le> lastStressed (stressObj h3 r)
            \<and> (stressScore (stressObj h1 r) \<le> 1 \<longrightarrow> stressScore (stressObj h3 r) \<le> 1)
            \<and> sz_id (stressObj h3 r) = sz_id (stressObj h1 r)
            \<and> sz_center (stressObj h3 r) = sz_center (stressObj h1 r)
            \<and> sz_radius (stressObj h3 r) = sz_radius (stressObj h1 r)
            \<and> visitCount (calmObj h1 r) \<le> visitCount (calmObj h3 r)
            \<and> lastVisited (calmObj h1 r) \<le> lastVisited (calmObj h3 r)
            \<and> (calmScore (calmObj h1 r) \<le> 1 \<longrightarrow> calmScore (calmObj h3 r) \<le> 1)
            \<and> cz_id (calmObj h3 r) = cz_id (calmObj h1 r)
            \<and> cz_center (calmObj h3 r) = cz_center (calmObj h1 r)
            \<and> cz_radius (calmObj h3 r) = cz_radius (calmObj h1 r)" if r: "r < nextRef h1" for r
  proof -
    have r2: "r < nextRef h2" using r a(1) by simp
    from assms(1) r have x: "sz_stressCount (stressObj h1 r) \<le> sz_stressCount (stressObj h2 r)"
      "lastStressed (stressObj h1 r) \<le> lastStressed (stressObj h2 r)"
      "stressScore (stressObj h1 r) \<le> 1 \<longrightarrow> stressScore (stressObj h2 r) \<le> 1"
      "sz_id (stressObj h2 r) = sz_id (stressObj h1 r)"
      "sz_center (stressObj h2 r) = sz_center (stressObj h1 r)"
      "sz_radius (stressObj h2 r) = sz_radius (stressObj h1 r)"
      "visitCount (calmObj h1 r) \<le> visitCount (calmObj h2 r)"
      "lastVisited (calmObj h1 r) \<le> lastVisited (calmObj h2 r)"
      "calmScore (calmObj h1 r) \<le> 1 \<longrightarrow> calmScore (calmObj h2 r) \<le> 1"
      "cz_id (calmObj h2 r) = cz_id (calmObj h1 r)"
      "cz_center (calmObj h2 r) = cz_center (calmObj h1 r)"
      "cz_radius (calmObj h2 r) = cz_radius (calmObj h1 r)"
      by (simp_all add: zones_grow_def s1 s2)
    from assms(2) r2 have y: "sz_stressCount (stressObj h2 r) \<le> sz_stressCount (stressObj h3 r)"
      "lastStressed (stressObj h2 r) \<le> lastStressed (stressObj h3 r)"
      "stressScore (stressObj h2 r) \<le> 1 \<longrightarrow> stressScore (stressObj h3 r) \<le> 1"
      "sz_id (stressObj h3 r) = sz_id (stressObj h2 r)"
      "sz_center (stressObj h3 r) = sz_center (stressObj h2 r)"
      "sz_radius (stressObj h3 r) = sz_radius (stressObj h2 r)"
      "visitCount (calmObj h2 r) \<le> visitCount (calmObj h3 r)"
      "lastVisited (calmObj h2 r) \<le> lastVisited (calmObj h3 r)"
      "calmScore (calmObj h2 r) \<le> 1 \<longrightarrow> calmScore (calmObj h3 r) \<le> 1"
      "cz_id (calmObj h3 r) = cz_id (calmObj h2 r)"
      "cz_center (calmObj h3 r) = cz_center (calmObj h2 r)"
      "cz_radius (calmObj h3 r) = cz_radius (calmObj h2 r)"
      by (simp_all add: zones_grow_def s2 s3)
    show ?thesis using x y by simp
  qed
  show ?thesis unfolding zones_grow_def s1 s3 split using 1 2 3 by blast
qed

lemma processCluster_grows: "zones_grow s (processCluster freshId c s)"
proof -
  obtain h cz sz where s: "s = (h, cz, sz)" by (cases s)
  show ?thesis
    unfolding s
    by (auto simp: processCluster_def zones_grow_def split: option.splits)
qed

lemma fold_processCluster_grows: "zones_grow s (fold (processCluster freshId) cs s)"
proof (induction cs arbitrary: s)
  case Nil
  show ?case by (simp add: zones_grow_refl)
next
  case (Cons c cs)
  have "zones_grow s (processCluster freshId c s)" by (rule processCluster_grows)
  moreover have "zones_grow (processCluster freshId c s)
                   (fold (processCluster freshId) cs (processCluster freshId c s))"
    by (rule Cons.IH)
  ultimately show ?case using zones_grow_trans by simp
qed

lemma updateZonesFromSession_grows:
  "zones_grow (h, existingCalmZones, existingStressZones)
     (updateZonesFromSession freshId h session existingCalmZones existingStressZones)"
  by (simp add: updateZonesFromSession_def fold_processCluster_grows)

text \<open>
  Claim C5 says that \<open>updateZonesFromSession\<close> leaves every zone record of its input
  stores unchanged. The code copies the two arrays but not the objects in them, and a merge
  writes to the object it found: with the stress zone \<open>zoneS0\<close> at address 0 of the input
  array and a session whose entries \<open>entry1\<close> and \<open>entry3\<close> lie on its center, the object
  at address 0, which the input array still holds, has count 7, score 1 and last timestamp
  300 after the call instead of 5, 0.95 and 150.
\<close>

theorem updateZonesFromSession_mutates_input_zone:
  "(case updateZonesFromSession decimal heap1 session1 [1] [0] of
      (h', calmZones', stressZones') \<Rightarrow>
        calmZones' = [1] \<and> stressZones' = [0]
        \<and> stressObj heap1 0 = zoneS0
        \<and> stressObj h' 0 = zoneS0\<lparr>sz_stressCount := 7, stressScore := 1, lastStressed := 300\<rparr>
        \<and> stressObj h' 0 \<noteq> stressObj heap1 0)"
proof -
  have s: "moodEntries session1 = [entry1, entry2, entry3]" by (simp add: session1_def)
  have a: "length (entries clusterA) = 2" "center clusterA = locA"
     "map me_timestamp (entries clusterA) = [100, 300]"
    by (simp_all add: clusterA_def entry1_def entry3_def)
  have b: "length (entries clusterB) = 1" by (simp add: clusterB_def)
  have "updateZonesFromSession decimal heap1 session1 [1] [0]
        = fold (processCluster decimal) [clusterA, clusterB] (heap1, [1], [0])"
    using example_clusters by (simp add: updateZonesFromSession_def s clusterA_def clusterB_def)
  also have "\<dots> = (heap1\<lparr>stressObj := (stressObj heap1)
                       (0 := zoneS0\<lparr>sz_stressCount := 7, stressScore := 1, lastStressed := 300\<rparr>)\<rparr>,
                    [1], [0])"
    using example_find_stress
    by (simp add: processCluster_def example_rates a b) (simp add: heap1_def zoneS0_def)
  finally show ?thesis by (simp add: heap1_def zoneS0_def)
qed


section \<open>Route calmness score\<close>

lemma fold_checkStressZone:
  "fold (checkStressZone loc) zs (sc, av, inc) = (sc', av', inc') \<Longrightarrow>
     sc' = sc - 0.1 * real (length (filter (\<lambda>z. isWithinRadius (sz_center z) loc (sz_radius z)) zs))
   \<and> inc' = inc
   \<and> (distinct av \<longrightarrow> distinct av')
   \<and> set av' = set av \<union> sz_id ` {z \<in> set zs. isWithinRadius (sz_center z) loc (sz_radius z)}"
proof (induction zs arbitrary: sc av)
  case Nil
  then show ?case by simp
next
  case (Cons z zs)
  show ?case
  proof (cases "isWithinRadius (sz_center z) loc (sz_radius z)")
    case False
    then have "checkStressZone loc z (sc, av, inc) = (sc, av, inc)"
      by (simp add: checkStressZone_def)
    with Cons.prems have "fold (checkStressZone loc) zs (sc, av, inc) = (sc', av', inc')" by simp
    from Cons.IH[OF this] False show ?thesis by auto
  next
    case True
    let ?av = "if sz_id z \<notin> set av then av @ [sz_id z] else av"
    from True have "checkStressZone loc z (sc, av, inc) = (sc - 0.1, ?av, inc)"
      by (simp add: checkStressZone_def)
    with Cons.prems have "fold (checkStressZone loc) zs (sc - 0.1, ?av, inc) = (sc', av', inc')"
      by simp
    from Cons.IH[OF this] have ih:
      "sc' = sc - 0.1 - 0.1 * real (length (filter (\<lambda>z. isWithinRadius (sz_center z) loc (sz_radius z)) zs))"
      "inc' = inc" "distinct ?av \<longrightarrow> distinct av'"
      "set av' = set ?av \<union> sz_id ` {z \<in> set zs. isWithinRadius (sz_center z) loc (sz_radius z)}"
      by auto
    have 1: "sc' = sc - 0.1 * real (length (filter (\<lambda>z. isWithinRadius (sz_center z) loc (sz_radius z)) (z # zs)))"
      using ih(1) True by (simp add: algebra_simps)
    have 2: "distinct av \<longrightarrow> distinct av'" using ih(3) by auto
    have 3: "set av' = set av \<union> sz_id ` {z' \<in> set (z # zs). isWithinRadius (sz_center z') loc (sz_radius z')}"
      using ih(4) True by auto
    show ?thesis using 1 2 3 ih(2) by blast
  qed
qed

lemma fold_checkCalmZone:
  "fold (checkCalmZone loc) zs (sc, av, inc) = (sc', av', inc') \<Longrightarrow>
     sc' = sc + 0.05 * real (length (filter (\<lambda>z. isWithinRadius (cz_center z) loc (cz_radius z)) zs))
   \<and> av' = av
   \<and> (distinct inc \<longrightarrow> distinct inc')
   \<and> set inc' = set inc \<union> cz_id ` {z \<in> set zs. isWithinRadius (cz_center z) loc (cz_radius z)}"
proof (induction zs arbitrary: sc inc)
  case Nil
  then show ?case by simp
next
  case (Cons z zs)
  show ?case
  proof (cases "isWithinRadius (cz_center z) loc (cz_radius z)")
    case False
    then have "checkCalmZone loc z (sc, av, inc) = (sc, av, inc)"
      by (simp add: checkCalmZone_def)
    with Cons.prems have "fold (checkCalmZone loc) zs (sc, av, inc) = (sc', av', inc')" by simp
    from Cons.IH[OF this] False show ?thesis by auto
  next
    case True
    let ?inc = "if cz_id z \<notin> set inc then inc @ [cz_id z] else inc"
    from True have "checkCalmZone loc z (sc, av, inc) = (sc + 0.05, av, ?inc)"
      by (simp add: checkCalmZone_def)
    with Cons.prems have "fold (checkCalmZone loc) zs (sc + 0.05, av, ?inc) = (sc', av', inc')"
      by simp
    from Cons.IH[OF this] have ih:
      "sc' = sc + 0.05 + 0.05 * real (length (filter (\<lambda>z. isWithinRadius (cz_center z) loc (cz_radius z)) zs))"
      "av' = av" "distinct ?inc \<longrightarrow> distinct inc'"
      "set inc' = set ?inc \<union> cz_id ` {z \<in> set zs. isWithinRadius (cz_center z) loc (cz_radius z)}"
      by auto
    have 1: "sc' = sc + 0.05 * real (length (filter (\<lambda>z. isWithinRadius (cz_center z) loc (cz_radius z)) (z # zs)))"
      using ih(1) True by (simp add: algebra_simps)
    have 2: "distinct inc \<longrightarrow> distinct inc'" using ih(3) by auto
    have 3: "set inc' = set inc \<union> cz_id ` {z' \<in> set (z # zs). isWithinRadius (cz_center z') loc (cz_radius z')}"
      using ih(4) True by auto
    show ?thesis using 1 2 3 ih(2) by blast
  qed
qed

lemma checkWaypoint_effect:
  assumes "checkWaypoint calmZones stressZones p (sc, av, inc) = (sc', av', inc')"
  shows "sc' = sc - 0.1 * real (length (filter (touchesStress p) stressZones))
               + 0.05 * real (length (filter (touchesCalm p) calmZones))"
    "distinct av \<longrightarrow> distinct av'" "distinct inc \<longrightarrow> distinct inc'"
    "set av' = set av \<union> sz_id ` {z \<in> set stressZones. touchesStress p z}"
    "set inc' = set inc \<union> cz_id ` {z \<in> set calmZones. touchesCalm p z}"
proof -
  obtain sc1 av1 inc1 where 1:
    "fold (checkStressZone (pointLocation p)) stressZones (sc, av, inc) = (sc1, av1, inc1)"
    by (metis prod_cases3)
  with assms have 2:
    "fold (checkCalmZone (pointLocation p)) calmZones (sc1, av1, inc1) = (sc', av', inc')"
    by (simp add: checkWaypoint_def)
  note a = fold_checkStressZone[OF 1] and b = fold_checkCalmZone[OF 2]
  show "sc' = sc - 0.1 * real (length (filter (touchesStress p) stressZones))
               + 0.05 * real (length (filter (touchesCalm p) calmZones))"
    using a b unfolding touchesStress_def touchesCalm_def by simp
  show "distinct av \<longrightarrow> distinct av'" using a b by simp
  show "distinct inc \<longrightarrow> distinct inc'" using a b by simp
  show "set av' = set av \<union> sz_id ` {z \<in> set stressZones. touchesStress p z}"
    using a b unfolding touchesStress_def by simp
  show "set inc' = set inc \<union> cz_id ` {z \<in> set calmZones. touchesCalm p z}"
    using a b unfolding touchesCalm_def by simp
qed

lemma stressHits_Cons:
  "stressHits (p # ps) zs = length (filter (touchesStress p) zs) + stressHits ps zs"
  by (simp add: stressHits_def filter_map comp_def)

lemma calmHits_Cons:
  "calmHits (p # ps) zs = length (filter (touchesCalm p) zs) + calmHits ps zs"
  by (simp add: calmHits_def filter_map comp_def)

lemma fold_checkWaypoint:
  "fold (checkWaypoint calmZones stressZones) ps (sc, av, inc) = (sc', av', inc') \<Longrightarrow>
     sc' = sc - 0.1 * real (stressHits ps stressZones) + 0.05 * real (calmHits ps calmZones)
   \<and> (distinct av \<longrightarrow> distinct av') \<and> (distinct inc \<longrightarrow> distinct inc')
   \<and> set av' = set av \<union> sz_id ` {z \<in> set stressZones. \<exists>p \<in> set ps. touchesStress p z}
   \<and> set inc' = set inc \<union> cz_id ` {z \<in> set calmZones. \<exists>p \<in> set ps. touchesCalm p z}"
proof (induction ps arbitrary: sc av inc)
  case Nil
  then show ?case by (simp add: stressHits_def calmHits_def)
next
  case (Cons p ps)
  obtain sc1 av1 inc1 where 1:
    "checkWaypoint calmZones stressZones p (sc, av, inc) = (sc1, av1, inc1)"
    by (metis prod_cases3)
  with Cons.prems have 2:
    "fold (checkWaypoint calmZones stressZones) ps (sc1, av1, inc1) = (sc', av', inc')"
    by simp
  note a = checkWaypoint_effect[OF 1]
  from Cons.IH[OF 2] have b:
    "sc' = sc1 - 0.1 * real (stressHits ps stressZones) + 0.05 * real (calmHits ps calmZones)"
    "distinct av1 \<longrightarrow> distinct av'" "distinct inc1 \<longrightarrow> distinct inc'"
    "set av' = set av1 \<union> sz_id ` {z \<in> set stressZones. \<exists>p \<in> set ps. touchesStress p z}"
    "set inc' = set inc1 \<union> cz_id ` {z \<in> set calmZones. \<exists>p \<in> set ps. touchesCalm p z}"
    by auto
  have "sc' = sc - 0.1 * real (stressHits (p # ps) stressZones)
                 + 0.05 * real (calmHits (p # ps) calmZones)"
    using a(1) b(1) by (simp add: stressHits_Cons calmHits_Cons algebra_simps)
  moreover have "distinct av \<longrightarrow> distinct av'" using a(2) b(2) by blast
  moreover have "distinct inc \<longrightarrow> distinct inc'" using a(3) b(3) by blast
  moreover have "set av' = set av \<union> sz_id ` {z \<in> set stressZones. \<exists>q \<in> set (p # ps). touchesStress q z}"
    using a(4) b(4) by auto
  moreover have "set inc' = set inc \<union> cz_id ` {z \<in> set calmZones. \<exists>q \<in> set (p # ps). touchesCalm q z}"
    using a(5) b(5) by auto
  ultimately show ?case by blast
qed

lemma count_list_distinct: "distinct xs \<Longrightarrow> x \<in> set xs \<Longrightarrow> count_list xs x = 1"
  by (induction xs) auto

lemma pointLocation_point0: "pointLocation point0 = locA"
  by (simp add: pointLocation_def point0_def locA_def)

lemma example_touches: "touchesStress point0 zoneS0" "\<not> touchesCalm point0 zoneC0"
  using pi_ge_two
  by (simp_all add: touchesStress_def touchesCalm_def isWithinRadius_def pointLocation_point0
      zoneS0_def zoneC0_def example_distances calculateDistance_locB_locA)

text \<open>
  Claim C4. For every waypoint sequence and every pair of zone stores the score returned by
  \<open>analyzeRouteOptimization\<close> is 0.5, minus 0.1 for each (waypoint, stress zone) pair
  where the waypoint lies within the zone's radius of its center, plus 0.05 for each such
  (waypoint, calm zone) pair, clamped to the interval from 0 to 1; so it always lies between
  0 and 1. The avoid list holds the ids of exactly the touched stress zones, each once, and
  the include list the ids of exactly the touched calm zones, each once. A route of a
  single waypoint that lies inside exactly one stress zone and inside no calm zone scores
  exactly 0.4.
\<close>

theorem analyzeRouteOptimization_score:
  "ra_calmScore (analyzeRouteOptimization waypoints calmZones stressZones)
     = max 0 (min 1 (0.5 - 0.1 * real (stressHits waypoints stressZones)
                         + 0.05 * real (calmHits waypoints calmZones)))
   \<and> 0 \<le> ra_calmScore (analyzeRouteOptimization waypoints calmZones stressZones)
   \<and> ra_calmScore (analyzeRouteOptimization waypoints calmZones stressZones) \<le> 1
   \<and> distinct (ra_avoidsStressZones (analyzeRouteOptimization waypoints calmZones stressZones))
   \<and> set (ra_avoidsStressZones (analyzeRouteOptimization waypoints calmZones stressZones))
       = sz_id ` {z \<in> set stressZones. \<exists>p \<in> set waypoints. touchesStress p z}
   \<and> (\<forall>z \<in> set stressZones. (\<exists>p \<in> set waypoints. touchesStress p z) \<longrightarrow>
         count_list (ra_avoidsStressZones (analyzeRouteOptimization waypoints calmZones stressZones))
           (sz_id z) = 1)
   \<and> distinct (ra_includesCalmZones (analyzeRouteOptimization waypoints calmZones stressZones))
   \<and> set (ra_includesCalmZones (analyzeRouteOptimization waypoints calmZones stressZones))
       = cz_id ` {z \<in> set calmZones. \<exists>p \<in> set waypoints. touchesCalm p z}
   \<and> (\<forall>z \<in> set calmZones. (\<exists>p \<in> set waypoints. touchesCalm p z) \<longrightarrow>
         count_list (ra_includesCalmZones (analyzeRouteOptimization waypoints calmZones stressZones))
           (cz_id z) = 1)
   \<and> (waypoints = [p] \<and> length (filter (touchesStress p) stressZones) = 1
        \<and> filter (touchesCalm p) calmZones = []
       \<longrightarrow> ra_calmScore (analyzeRouteOptimization waypoints calmZones stressZones) = 0.4)"
proof -
  let ?r = "analyzeRouteOptimization waypoints calmZones stressZones"
  obtain sc av inc where f:
    "fold (checkWaypoint calmZones stressZones) waypoints (0.5, [], []) = (sc, av, inc)"
    by (metis prod_cases3)
  then have r: "ra_calmScore ?r = max 0 (min 1 sc)" "ra_avoidsStressZones ?r = av"
    "ra_includesCalmZones ?r = inc"
    by (simp_all add: analyzeRouteOptimization_def)
  from fold_checkWaypoint[OF f] have g:
    "sc = 0.5 - 0.1 * real (stressHits waypoints stressZones)
              + 0.05 * real (calmHits waypoints calmZones)"
    "distinct av" "distinct inc"
    "set av = sz_id ` {z \<in> set stressZones. \<exists>p \<in> set waypoints. touchesStress p z}"
    "set inc = cz_id ` {z \<in> set calmZones. \<exists>p \<in> set waypoints. touchesCalm p z}"
    by auto
  have 1: "ra_calmScore ?r = max 0 (min 1 (0.5 - 0.1 * real (stressHits waypoints stressZones)
                         + 0.05 * real (calmHits waypoints calmZones)))"
    using r(1) g(1) by simp
  have 2: "0 \<le> ra_calmScore ?r" "ra_calmScore ?r \<le> 1" using r(1) by simp_all
  have 3: "\<forall>z \<in> set stressZones. (\<exists>p \<in> set waypoints. touchesStress p z) \<longrightarrow>
         count_list (ra_avoidsStressZones ?r) (sz_id z) = 1"
  proof (intro ballI impI)
    fix z assume "z \<in> set stressZones" "\<exists>p \<in> set waypoints. touchesStress p z"
    then have "sz_id z \<in> set av" unfolding g(4) by blast
    with g(2) show "count_list (ra_avoidsStressZones ?r) (sz_id z) = 1"
      unfolding r(2) by (rule count_list_distinct)
  qed
  have 4: "\<forall>z \<in> set calmZones. (\<exists>p \<in> set waypoints. touchesCalm p z) \<longrightarrow>
         count_list (ra_includesCalmZones ?r) (cz_id z) = 1"
  proof (intro ballI impI)
    fix z assume "z \<in> set calmZones" "\<exists>p \<in> set waypoints. touchesCalm p z"
    then have "cz_id z \<in> set inc" unfolding g(5) by blast
    with g(3) show "count_list (ra_includesCalmZones ?r) (cz_id z) = 1"
      unfolding r(3) by (rule count_list_distinct)
  qed
  have 5: "ra_calmScore ?r = 0.4"
    if "waypoints = [p] \<and> length (filter (touchesStress p) stressZones) = 1
        \<and> filter (touchesCalm p) calmZones = []"
  proof -
    have "stressHits waypoints stressZones = 1" "calmHits waypoints calmZones = 0"
      using that by (simp_all add: stressHits_Cons calmHits_Cons) (simp_all add: stressHits_def calmHits_def)
    with 1 show ?thesis by simp
  qed
  show ?thesis using 1 2 3 4 5 g r by simp
qed

theorem analyzeRouteOptimization_score_witness:
  "length (filter (touchesStress point0) [zoneS0]) = 1
   \<and> filter (touchesCalm point0) [zoneC0] = []
   \<and> ra_calmScore (analyzeRouteOptimization [point0] [zoneC0] [zoneS0]) = 0.4
   \<and> ra_avoidsStressZones (analyzeRouteOptimization [point0] [zoneC0] [zoneS0]) = [''stress_old'']
   \<and> ra_includesCalmZones (analyzeRouteOptimization [point0] [zoneC0] [zoneS0]) = []
   \<and> count_list (ra_avoidsStressZones (analyzeRouteOptimization [point0] [zoneC0] [zoneS0]))
        (sz_id zoneS0) = 1"
proof -
  have a: "length (filter (touchesStress point0) [zoneS0]) = 1"
    "filter (touchesCalm point0) [zoneC0] = []"
    by (simp_all add: example_touches)
  have e: "ra_avoidsStressZones (analyzeRouteOptimization [point0] [zoneC0] [zoneS0]) = [''stress_old'']"
    "ra_includesCalmZones (analyzeRouteOptimization [point0] [zoneC0] [zoneS0]) = []"
    using example_touches
    by (simp_all add: analyzeRouteOptimization_def checkWaypoint_def checkStressZone_def
        checkCalmZone_def touchesStress_def touchesCalm_def)
      (simp_all add: zoneS0_def)
  note t = analyzeRouteOptimization_score[of "[point0]" "[zoneC0]" "[zoneS0]" point0]
  from t a have s: "ra_calmScore (analyzeRouteOptimization [point0] [zoneC0] [zoneS0]) = 0.4"
    by blast
  from t example_touches(1)
  have c: "count_list (ra_avoidsStressZones (analyzeRouteOptimization [point0] [zoneC0] [zoneS0]))
        (sz_id zoneS0) = 1"
    by simp
  show ?thesis using a e s c by blast
qed


section \<open>Fallback waypoints\<close>

lemma waypoints_NaN:
  "calculateDistance_double m start end' = NaN \<Longrightarrow>
     generateIntermediateWaypoints m random start end' = []"
  by (simp add: generateIntermediateWaypoints_def)

lemma waypoints_Double:
  "calculateDistance_double m start end' = Double d \<Longrightarrow>
     generateIntermediateWaypoints m random start end' =
       map (\<lambda>i. \<lparr>latitude = fl m (interpolated m (latitude start) (latitude end') i
                                         (max 3 (min 8 (floor (fl m (d / 200)))))
                                     + jitter m (random (2 * i))),
                   longitude = fl m (interpolated m (longitude start) (longitude end') i
                                         (max 3 (min 8 (floor (fl m (d / 200)))))
                                      + jitter m (random (2 * i + 1)))\<rparr>)
         [0 ..< nat (max 3 (min 8 (floor (fl m (d / 200))))) + 1]"
  by (simp add: generateIntermediateWaypoints_def Let_def interpolated_def jitter_def)

lemma waypoints_length:
  "calculateDistance_double m start end' = Double d \<Longrightarrow>
     length (generateIntermediateWaypoints m random start end')
       = nat (max 3 (min 8 (floor (fl m (d / 200))))) + 1"
  by (simp add: waypoints_Double)

lemma waypoints_steps:
  assumes "generateIntermediateWaypoints m random start end' \<noteq> []"
  shows "\<exists>d. calculateDistance_double m start end' = Double d
           \<and> int (length (generateIntermediateWaypoints m random start end')) - 1
               = max 3 (min 8 (floor (fl m (d / 200))))"
proof (cases "calculateDistance_double m start end'")
  case NaN
  with assms show ?thesis by (simp add: waypoints_NaN)
next
  case (Double d)
  have "0 \<le> max 3 (min 8 (floor (fl m (d / 200))))" by simp
  then show ?thesis using Double by (simp add: waypoints_length)
qed

lemma waypoint_nth:
  assumes "i < length (generateIntermediateWaypoints m random start end')"
  shows "generateIntermediateWaypoints m random start end' ! i =
          \<lparr>latitude = fl m (interpolated m (latitude start) (latitude end') i
                  (int (length (generateIntermediateWaypoints m random start end')) - 1)
                + jitter m (random (2 * i))),
           longitude = fl m (interpolated m (longitude start) (longitude end') i
                  (int (length (generateIntermediateWaypoints m random start end')) - 1)
                + jitter m (random (2 * i + 1)))\<rparr>"
proof -
  let ?g = "generateIntermediateWaypoints m random start end'"
  have "?g \<noteq> []" using assms by auto
  from waypoints_steps[OF this] obtain d where d: "calculateDistance_double m start end' = Double d"
    and n: "int (length ?g) - 1 = max 3 (min 8 (floor (fl m (d / 200))))" by blast
  let ?n = "max 3 (min 8 (floor (fl m (d / 200))))"
  have i: "i < length [0 ..< nat ?n + 1]" using assms waypoints_length[OF d, of random] by simp
  have "?g ! i = \<lparr>latitude = fl m (interpolated m (latitude start) (latitude end') i ?n
                                     + jitter m (random (2 * i))),
                   longitude = fl m (interpolated m (longitude start) (longitude end') i ?n
                                      + jitter m (random (2 * i + 1)))\<rparr>"
    unfolding waypoints_Double[OF d] using i by (simp add: nth_map del: upt_Suc)
  then show ?thesis unfolding n .
qed

lemma interpolated_first:
  "fl m 0 = 0 \<Longrightarrow> fl m a = a \<Longrightarrow> interpolated m a b 0 n = a"
  by (simp add: interpolated_def)

lemma interpolated_last:
  "0 < n \<Longrightarrow> interpolated m a b (nat n) n = fl m (a + fl m (fl m (b - a) * fl m 1))"
  by (simp add: interpolated_def)

lemma calculateDistance_double_exact_locA_locB:
  "calculateDistance_double exact locA locB = Double (6371000 * (pi / 2))"
proof -
  have s: "sin (pi / 4) * sin (pi / 4) = 1 / 2"
    by (simp add: sin_45 real_sqrt_mult_self)
  have "calculateDistance_double exact locA locB
          = (if sin (pi / 4) * sin (pi / 4) < 0 \<or> 1 - sin (pi / 4) * sin (pi / 4) < 0 then NaN
             else Double (6371000 * (2 * atan2 (sqrt (sin (pi / 4) * sin (pi / 4)))
                                 (sqrt (1 - sin (pi / 4) * sin (pi / 4))))))"
    by (simp add: calculateDistance_double_def exact_def locA_def locB_def Let_def
        del: real_sqrt_abs2 real_sqrt_mult_self)
  also have "\<dots> = Double (6371000 * (2 * atan2 (sqrt (1/2)) (sqrt (1/2))))"
    unfolding s by simp
  also have "\<dots> = Double (6371000 * (pi / 2))"
    by (simp add: atan2_diag)
  finally show ?thesis .
qed

lemma calculateDistance_double_sineHigh_locA_locC:
  "calculateDistance_double sineHigh locA locC = NaN"
proof -
  have "(1::real) < (1 / 10 ^ 16) * (1 / 10 ^ 16) + 1 * (1 + 1 / 10 ^ 16) * (1 + 1 / 10 ^ 16)"
    by simp
  then show ?thesis
    by (simp add: calculateDistance_double_def sineHigh_def locA_def locC_def Let_def)
qed

text \<open>
  Claim C8 says that for every start and end the step count is the floor of the distance
  over 200 clamped to the range from 3 to 8, and that at least 4 and at most 9 waypoints
  are generated. \<open>calculateDistance\<close> does not keep its term \<open>a\<close> within 0 and 1: when
  \<open>a\<close> rounds above 1, as it does for nearly antipodal points such as the start
  \<open>(-88.2, 0)\<close> and the end \<open>(88.2, 180)\<close>, where IEEE double arithmetic yields
  \<open>1.0000000000000002\<close>, the distance is \<open>NaN\<close>, so is the step count, and the loop pushes
  nothing. For every rounding and every engine: when the computed distance is \<open>NaN\<close> no
  waypoint is generated; when it is a number the step count is the clamped floor and there
  are one more waypoints than steps, between 4 and 9.
\<close>

theorem no_waypoints_when_distance_NaN:
  "(calculateDistance_double m start end' = NaN \<longrightarrow>
      generateIntermediateWaypoints m random start end' = [])
   \<and> (calculateDistance_double m start end' = Double d \<longrightarrow>
        length (generateIntermediateWaypoints m random start end')
          = nat (max 3 (min 8 (floor (fl m (d / 200))))) + 1
      \<and> 4 \<le> length (generateIntermediateWaypoints m random start end')
      \<and> length (generateIntermediateWaypoints m random start end') \<le> 9)"
proof (intro conjI impI)
  assume "calculateDistance_double m start end' = NaN"
  then show "generateIntermediateWaypoints m random start end' = []" by (rule waypoints_NaN)
next
  assume d: "calculateDistance_double m start end' = Double d"
  show l: "length (generateIntermediateWaypoints m random start end')
          = nat (max 3 (min 8 (floor (fl m (d / 200))))) + 1"
    using d by (rule waypoints_length)
  have "3 \<le> nat (max 3 (min 8 (floor (fl m (d / 200)))))"
    "nat (max 3 (min 8 (floor (fl m (d / 200))))) \<le> 8"
    by linarith+
  then show "4 \<le> length (generateIntermediateWaypoints m random start end')"
    "length (generateIntermediateWaypoints m random start end') \<le> 9"
    unfolding l by simp_all
qed

theorem no_waypoints_when_distance_NaN_witness:
  "calculateDistance_double sineHigh locA locC = NaN
   \<and> generateIntermediateWaypoints sineHigh (\<lambda>_. 1/4) locA locC = []
   \<and> calculateDistance_double exact locA locB = Double (6371000 * (pi / 2))
   \<and> length (generateIntermediateWaypoints exact (\<lambda>_. 1/4) locA locB) = 9"
proof -
  have "(8::int) \<le> floor (fl exact (6371000 * (pi / 2) / 200))"
    using pi_ge_two by (simp add: exact_def le_floor_iff)
  then have n: "nat (max 3 (min 8 (floor (fl exact (6371000 * (pi / 2) / 200))))) = 8" by simp
  from no_waypoints_when_distance_NaN[of sineHigh locA locC "\<lambda>_. 1/4" 0]
    calculateDistance_double_sineHigh_locA_locC
  have 1: "generateIntermediateWaypoints sineHigh (\<lambda>_. 1/4) locA locC = []" by blast
  from no_waypoints_when_distance_NaN[of exact locA locB "\<lambda>_. 1/4" "6371000 * (pi / 2)"]
    calculateDistance_double_exact_locA_locB
  have "length (generateIntermediateWaypoints exact (\<lambda>_. 1/4) locA locB)
          = nat (max 3 (min 8 (floor (fl exact (6371000 * (pi / 2) / 200))))) + 1" by blast
  then have 2: "length (generateIntermediateWaypoints exact (\<lambda>_. 1/4) locA locB) = 9"
    unfolding n by simp
  show ?thesis
    using 1 2 calculateDistance_double_sineHigh_locA_locC calculateDistance_double_exact_locA_locB
    by blast
qed

lemma waypoints_exact_locA_locB_length:
  "length (generateIntermediateWaypoints exact random locA locB) = 9"
proof -
  have "(8::int) \<le> floor (fl exact (6371000 * (pi / 2) / 200))"
    using pi_ge_two by (simp add: exact_def le_floor_iff)
  then have n: "nat (max 3 (min 8 (floor (fl exact (6371000 * (pi / 2) / 200))))) = 8" by simp
  show ?thesis
    unfolding waypoints_length[OF calculateDistance_double_exact_locA_locB] n by simp
qed

lemma jitter_exact: "jitter exact r = (r - 0.5) * 0.0001"
  by (simp add: jitter_def exact_def)

lemma interpolated_exact: "interpolated exact a b i n = a + (b - a) * (real i / real_of_int n)"
  by (simp add: interpolated_def exact_def)

lemma waypoints_exact_locA_locB_nth:
  assumes "i < 9"
  shows "generateIntermediateWaypoints exact random locA locB ! i =
           \<lparr>latitude = 90 * (real i / 8) + (random (2 * i) - 0.5) * 0.0001,
            longitude = (random (2 * i + 1) - 0.5) * 0.0001\<rparr>"
proof -
  have "i < length (generateIntermediateWaypoints exact random locA locB)"
    using assms by (simp add: waypoints_exact_locA_locB_length)
  from waypoint_nth[OF this]
  have "generateIntermediateWaypoints exact random locA locB ! i =
          \<lparr>latitude = fl exact (interpolated exact (latitude locA) (latitude locB) i (int 9 - 1)
                + jitter exact (random (2 * i))),
           longitude = fl exact (interpolated exact (longitude locA) (longitude locB) i (int 9 - 1)
                + jitter exact (random (2 * i + 1)))\<rparr>"
    unfolding waypoints_exact_locA_locB_length .
  moreover have "fl exact = (\<lambda>x. x)" by (simp add: exact_def)
  moreover have "latitude locA = 0" "latitude locB = 90" "longitude locA = 0" "longitude locB = 0"
    by (simp_all add: locA_def locB_def)
  ultimately show ?thesis
    by (simp add: jitter_exact interpolated_exact)
qed

lemma waypoints_exact_locA_locB_first:
  "hd (generateIntermediateWaypoints exact random locA locB) =
     \<lparr>latitude = (random 0 - 0.5) * 0.0001, longitude = (random 1 - 0.5) * 0.0001\<rparr>"
proof -
  have "generateIntermediateWaypoints exact random locA locB \<noteq> []"
    using waypoints_exact_locA_locB_length[of random] by auto
  then have "hd (generateIntermediateWaypoints exact random locA locB)
             = generateIntermediateWaypoints exact random locA locB ! 0"
    by (rule hd_conv_nth)
  also have "\<dots> = \<lparr>latitude = 90 * (real (0::nat) / 8) + (random (2 * 0) - 0.5) * 0.0001,
            longitude = (random (2 * 0 + 1) - 0.5) * 0.0001\<rparr>"
    by (rule waypoints_exact_locA_locB_nth) simp
  finally show ?thesis by simp
qed

lemma waypoints_exact_locA_locB_last:
  "last (generateIntermediateWaypoints exact random locA locB) =
     \<lparr>latitude = 90 + (random 16 - 0.5) * 0.0001, longitude = (random 17 - 0.5) * 0.0001\<rparr>"
proof -
  have ne: "generateIntermediateWaypoints exact random locA locB \<noteq> []"
    using waypoints_exact_locA_locB_length[of random] by auto
  have "last (generateIntermediateWaypoints exact random locA locB)
             = generateIntermediateWaypoints exact random locA locB ! 8"
    using last_conv_nth[OF ne] by (simp add: waypoints_exact_locA_locB_length)
  also have "\<dots> = \<lparr>latitude = 90 * (real (8::nat) / 8) + (random (2 * 8) - 0.5) * 0.0001,
            longitude = (random (2 * 8 + 1) - 0.5) * 0.0001\<rparr>"
    by (rule waypoints_exact_locA_locB_nth) simp
  finally show ?thesis by simp
qed

text \<open>
  Claim C6 says that the first generated waypoint is exactly the start and the last exactly the
  end, whatever the random source returns. The loop adds the jitter in every iteration, the
  first and the last included: when every call of \<open>Math.random()\<close> returns 0, the first
  waypoint of the route from \<open>locA\<close> to \<open>locB\<close> differs from \<open>locA\<close> in latitude and in
  longitude, and the last differs from \<open>locB\<close>.
\<close>

theorem jitter_moves_first_and_last_waypoint:
  "hd (generateIntermediateWaypoints exact (\<lambda>_. 0) locA locB)
     = \<lparr>latitude = - 0.00005, longitude = - 0.00005\<rparr>
   \<and> latitude locA = 0 \<and> longitude locA = 0
   \<and> latitude (hd (generateIntermediateWaypoints exact (\<lambda>_. 0) locA locB)) \<noteq> latitude locA
   \<and> longitude (hd (generateIntermediateWaypoints exact (\<lambda>_. 0) locA locB)) \<noteq> longitude locA
   \<and> last (generateIntermediateWaypoints exact (\<lambda>_. 0) locA locB)
     = \<lparr>latitude = 89.99995, longitude = - 0.00005\<rparr>
   \<and> latitude locB = 90 \<and> longitude locB = 0
   \<and> latitude (last (generateIntermediateWaypoints exact (\<lambda>_. 0) locA locB)) \<noteq> latitude locB
   \<and> longitude (last (generateIntermediateWaypoints exact (\<lambda>_. 0) locA locB)) \<noteq> longitude locB"
proof -
  have 1: "hd (generateIntermediateWaypoints exact (\<lambda>_. 0) locA locB)
     = \<lparr>latitude = - 0.00005, longitude = - 0.00005\<rparr>"
    unfolding waypoints_exact_locA_locB_first by simp
  have 2: "last (generateIntermediateWaypoints exact (\<lambda>_. 0) locA locB)
     = \<lparr>latitude = 89.99995, longitude = - 0.00005\<rparr>"
    unfolding waypoints_exact_locA_locB_last by simp
  have 3: "latitude locA = 0" "longitude locA = 0" "latitude locB = 90" "longitude locB = 0"
    by (simp_all add: locA_def locB_def)
  show ?thesis unfolding 1 2 3 by simp
qed

text \<open>
  The effect does not depend on the arithmetic computing exactly: for every rounding that
  takes 0 to 0 and keeps the sign of a number, a start of latitude 0 and draws that are all
  0 give a first waypoint of negative latitude, whenever waypoints are generated.
\<close>

lemma first_waypoint_moved_in_every_arithmetic:
  assumes ne: "generateIntermediateWaypoints m (\<lambda>_. 0) start end' \<noteq> []"
    and z: "fl m 0 = 0"
    and neg: "\<And>x. x < 0 \<Longrightarrow> fl m x < 0"
    and pos: "\<And>x. 0 < x \<Longrightarrow> 0 < fl m x"
    and s: "latitude start = 0"
  shows "latitude (hd (generateIntermediateWaypoints m (\<lambda>_. 0) start end')) < latitude start"
proof -
  let ?g = "generateIntermediateWaypoints m (\<lambda>_. 0) start end'"
  have 0: "0 < length ?g" using ne by simp
  have "hd ?g = ?g ! 0" using ne by (rule hd_conv_nth)
  then have "latitude (hd ?g) = fl m (interpolated m 0 (latitude end') 0 (int (length ?g) - 1)
                                      + jitter m 0)"
    using waypoint_nth[OF 0] s by simp
  also have "interpolated m 0 (latitude end') 0 (int (length ?g) - 1) = 0"
    using z by (simp add: interpolated_def)
  finally have l: "latitude (hd ?g) = fl m (jitter m 0)" by simp
  have "fl m (0 - 0.5) < 0" by (rule neg) simp
  moreover have "0 < fl m 0.0001" by (rule pos) simp
  ultimately have "fl m (0 - 0.5) * fl m 0.0001 < 0" by (rule mult_neg_pos)
  then have "jitter m 0 < 0" unfolding jitter_def by (rule neg)
  then have "fl m (jitter m 0) < 0" by (rule neg)
  then show ?thesis using l s by simp
qed

text \<open>
  Claim C6, amended. The jitter is applied to every waypoint that is generated, the first
  and the last included: in double arithmetic the latitude and the longitude of the
  waypoint of iteration \<open>i\<close> are the interpolated value at ratio \<open>i / steps\<close> plus the jitter
  term \<open>(r - 0.5) * 0.0001\<close> of the coordinate's own random draw \<open>r\<close>, \<open>steps\<close> being the
  number of generated waypoints less one. So the first generated waypoint is the start's
  latitude and longitude (which are doubles) plus their jitter terms, and the last is the
  interpolated value at ratio 1 plus its jitter terms, for every outcome of the random
  source.
\<close>

theorem jitter_on_every_waypoint:
  "(\<forall>i < length (generateIntermediateWaypoints m random start end').
      generateIntermediateWaypoints m random start end' ! i =
        \<lparr>latitude = fl m (interpolated m (latitude start) (latitude end') i
                 (int (length (generateIntermediateWaypoints m random start end')) - 1)
               + jitter m (random (2 * i))),
         longitude = fl m (interpolated m (longitude start) (longitude end') i
                 (int (length (generateIntermediateWaypoints m random start end')) - 1)
               + jitter m (random (2 * i + 1)))\<rparr>)
   \<and> (generateIntermediateWaypoints m random start end' \<noteq> []
        \<and> fl m 0 = 0 \<and> fl m (latitude start) = latitude start
        \<and> fl m (longitude start) = longitude start \<longrightarrow>
        hd (generateIntermediateWaypoints m random start end') =
          \<lparr>latitude = fl m (latitude start + jitter m (random 0)),
           longitude = fl m (longitude start + jitter m (random 1))\<rparr>)
   \<and> (generateIntermediateWaypoints m random start end' \<noteq> [] \<longrightarrow>
        last (generateIntermediateWaypoints m random start end') =
          \<lparr>latitude = fl m (fl m (latitude start
                                   + fl m (fl m (latitude end' - latitude start) * fl m 1))
                 + jitter m (random (2 * (length (generateIntermediateWaypoints m random start end') - 1)))),
           longitude = fl m (fl m (longitude start
                                   + fl m (fl m (longitude end' - longitude start) * fl m 1))
                 + jitter m (random (2 * (length (generateIntermediateWaypoints m random start end') - 1) + 1)))\<rparr>)"
proof (intro conjI allI impI)
  let ?g = "generateIntermediateWaypoints m random start end'"
  fix i assume "i < length ?g"
  then show "?g ! i =
        \<lparr>latitude = fl m (interpolated m (latitude start) (latitude end') i (int (length ?g) - 1)
               + jitter m (random (2 * i))),
         longitude = fl m (interpolated m (longitude start) (longitude end') i (int (length ?g) - 1)
               + jitter m (random (2 * i + 1)))\<rparr>"
    by (rule waypoint_nth)
next
  let ?g = "generateIntermediateWaypoints m random start end'"
  assume a: "?g \<noteq> [] \<and> fl m 0 = 0 \<and> fl m (latitude start) = latitude start
        \<and> fl m (longitude start) = longitude start"
  then have "0 < length ?g" by simp
  from waypoint_nth[OF this] a
  have "?g ! 0 = \<lparr>latitude = fl m (latitude start + jitter m (random 0)),
           longitude = fl m (longitude start + jitter m (random 1))\<rparr>"
    by (simp add: interpolated_first)
  moreover have "hd ?g = ?g ! 0" using a by (simp add: hd_conv_nth)
  ultimately show "hd ?g = \<lparr>latitude = fl m (latitude start + jitter m (random 0)),
           longitude = fl m (longitude start + jitter m (random 1))\<rparr>"
    by simp
next
  let ?g = "generateIntermediateWaypoints m random start end'"
  assume a: "?g \<noteq> []"
  from waypoints_steps[OF a] obtain d where
    n: "int (length ?g) - 1 = max 3 (min 8 (floor (fl m (d / 200))))" by blast
  have pos: "0 < int (length ?g) - 1" unfolding n by simp
  have k: "nat (int (length ?g) - 1) = length ?g - 1" by simp
  have lt: "length ?g - 1 < length ?g" using a by simp
  have "last ?g = ?g ! (length ?g - 1)" using a by (rule last_conv_nth)
  also have "\<dots> = \<lparr>latitude = fl m (interpolated m (latitude start) (latitude end') (length ?g - 1)
                 (int (length ?g) - 1) + jitter m (random (2 * (length ?g - 1)))),
         longitude = fl m (interpolated m (longitude start) (longitude end') (length ?g - 1)
                 (int (length ?g) - 1) + jitter m (random (2 * (length ?g - 1) + 1)))\<rparr>"
    using lt by (rule waypoint_nth)
  also have "\<dots> = \<lparr>latitude = fl m (fl m (latitude start
                                   + fl m (fl m (latitude end' - latitude start) * fl m 1))
                 + jitter m (random (2 * (length ?g - 1)))),
           longitude = fl m (fl m (longitude start
                                   + fl m (fl m (longitude end' - longitude start) * fl m 1))
                 + jitter m (random (2 * (length ?g - 1) + 1)))\<rparr>"
    using interpolated_last[OF pos, of m] unfolding k by simp
  finally show "last ?g = \<lparr>latitude = fl m (fl m (latitude start
                                   + fl m (fl m (latitude end' - latitude start) * fl m 1))
                 + jitter m (random (2 * (length ?g - 1)))),
           longitude = fl m (fl m (longitude start
                                   + fl m (fl m (longitude end' - longitude start) * fl m 1))
                 + jitter m (random (2 * (length ?g - 1) + 1)))\<rparr>" .
qed

theorem jitter_on_every_waypoint_witness:
  "generateIntermediateWaypoints exact (\<lambda>_. 1/4) locA locB \<noteq> []
   \<and> fl exact 0 = 0 \<and> fl exact (latitude locA) = latitude locA
   \<and> fl exact (longitude locA) = longitude locA
   \<and> hd (generateIntermediateWaypoints exact (\<lambda>_. 1/4) locA locB)
       = \<lparr>latitude = - 0.000025, longitude = - 0.000025\<rparr>
   \<and> generateIntermediateWaypoints exact (\<lambda>_. 1/4) locA locB ! 4
       = \<lparr>latitude = 44.999975, longitude = - 0.000025\<rparr>
   \<and> last (generateIntermediateWaypoints exact (\<lambda>_. 1/4) locA locB)
       = \<lparr>latitude = 89.999975, longitude = - 0.000025\<rparr>"
proof -
  let ?g = "generateIntermediateWaypoints exact (\<lambda>_. 1/4) locA locB"
  have len: "length ?g = 9" by (rule waypoints_exact_locA_locB_length)
  have ne: "?g \<noteq> []" using len by auto
  have f: "fl exact 0 = 0" "fl exact (latitude locA) = latitude locA"
    "fl exact (longitude locA) = longitude locA"
    by (simp_all add: exact_def)
  note t = jitter_on_every_waypoint[of exact "\<lambda>_. 1/4" locA locB]
  from t ne f have "hd ?g = \<lparr>latitude = fl exact (latitude locA + jitter exact (1/4)),
           longitude = fl exact (longitude locA + jitter exact (1/4))\<rparr>"
    by blast
  then have 1: "hd ?g = \<lparr>latitude = - 0.000025, longitude = - 0.000025\<rparr>"
    by (simp add: jitter_exact locA_def) (simp add: exact_def)
  have "4 < length ?g" using len by simp
  with t have "?g ! 4 = \<lparr>latitude = fl exact (interpolated exact (latitude locA) (latitude locB) 4
                 (int (length ?g) - 1) + jitter exact (1/4)),
         longitude = fl exact (interpolated exact (longitude locA) (longitude locB) 4
                 (int (length ?g) - 1) + jitter exact (1/4))\<rparr>"
    by blast
  then have "?g ! 4 = \<lparr>latitude = fl exact (interpolated exact (latitude locA) (latitude locB) 4
                 (int 9 - 1) + jitter exact (1/4)),
         longitude = fl exact (interpolated exact (longitude locA) (longitude locB) 4
                 (int 9 - 1) + jitter exact (1/4))\<rparr>"
    unfolding len .
  moreover have "fl exact = (\<lambda>x. x)" by (simp add: exact_def)
  moreover have "latitude locA = 0" "latitude locB = 90" "longitude locA = 0" "longitude locB = 0"
    by (simp_all add: locA_def locB_def)
  ultimately have 2: "?g ! 4 = \<lparr>latitude = 44.999975, longitude = - 0.000025\<rparr>"
    by (simp add: jitter_exact interpolated_exact)
  from t ne have "last ?g = \<lparr>latitude = fl exact (fl exact (latitude locA
                                   + fl exact (fl exact (latitude locB - latitude locA) * fl exact 1))
                 + jitter exact (1/4)),
           longitude = fl exact (fl exact (longitude locA
                                   + fl exact (fl exact (longitude locB - longitude locA) * fl exact 1))
                 + jitter exact (1/4))\<rparr>"
    by blast
  then have 3: "last ?g = \<lparr>latitude = 89.999975, longitude = - 0.000025\<rparr>"
    by (simp add: jitter_exact locA_def locB_def) (simp add: exact_def)
  show ?thesis using ne f 1 2 3 by blast
qed

section \<open>Simple route suggestion\<close>






section \<open>Session insights\<close>

text \<open>
  Claim C7. For every walk session whose list of mood entries is empty,
  \<open>generateSessionInsights\<close> returns exactly the string
  \<open>No mood data recorded for this walk.\<close>, whatever the other fields of the session and the
  local time zone are: the guard returns before anything else is computed.
\<close>

theorem no_mood_data_message:
  "moodEntries session = [] \<Longrightarrow>
     generateSessionInsights getHours session = ''No mood data recorded for this walk.''"
  by (simp add: generateSessionInsights_def)

theorem no_mood_data_message_witness:
  "moodEntries session0 = []
   \<and> generateSessionInsights (\<lambda>t. 10) session0 = ''No mood data recorded for this walk.''"
proof -
  have e: "moodEntries session0 = []" by (simp add: session0_def)
  from no_mood_data_message[OF e, of "\<lambda>t. 10"] e show ?thesis by simp
qed

lemma digitChar_no_S: "d < 10 \<Longrightarrow> digitChar d \<noteq> CHR ''S''"
proof -
  assume "d < 10"
  then have "d \<in> {0,1,2,3,4,5,6,7,8,9}" by auto
  then show ?thesis by (auto simp: digitChar_def)
qed

lemma decimal_no_S: "CHR ''S'' \<notin> set (decimal n)"
proof (induction n rule: decimal.induct)
  case (1 n)
  show ?case
  proof (cases "n < 10")
    case True
    then show ?thesis using digitChar_no_S[of n] by (subst decimal.simps) auto
  next
    case False
    have "n mod 10 < 10" by simp
    then have "digitChar (n mod 10) \<noteq> CHR ''S''" by (rule digitChar_no_S)
    with False 1 show ?thesis by (subst decimal.simps) auto
  qed
qed

lemma numberToString_no_S: "CHR ''S'' \<notin> set (numberToString i)"
  by (simp add: numberToString_def decimal_no_S)

lemma analyzeTimePatterns_no_S:
  "analyzeTimePatterns m a e = Some t \<Longrightarrow> CHR ''S'' \<notin> set t"
  by (auto simp: analyzeTimePatterns_def Let_def split: if_splits)

lemma insights_without_location_no_S:
  assumes "analyzeLocationPatterns (moodEntries session) = None"
  shows "CHR ''S'' \<notin> set (generateSessionInsights getHours session)"
proof (cases "length (moodEntries session) = 0")
  case True
  then show ?thesis by (simp add: generateSessionInsights_def)
next
  case False
  show ?thesis
    using False assms
    by (auto simp: generateSessionInsights_def Let_def numberToString_no_S decimal_no_S
        split: option.splits dest: analyzeTimePatterns_no_S)
qed

lemma sentences_start_with_S:
  "CHR ''S'' \<in> set stressAreasSentence" "CHR ''S'' \<in> set calmAreasSentence"
  by (simp_all add: stressAreasSentence_def calmAreasSentence_def)

lemma decimal_100: "decimal 100 = ''100''"
  by (simp add: decimal.simps[of 100] decimal.simps[of 10] decimal.simps[of "Suc 0"] digitChar_def)

lemma decimal_2: "decimal (Suc (Suc 0)) = ''2''"
  by (simp add: decimal.simps[of "Suc (Suc 0)"] digitChar_def)

lemma example_insights:
  "generateSessionInsights (\<lambda>t. 10) session2 =
     ''The walk had more stressful moments (100%) than calm ones. High noise levels (2 instances) often correlated with stress (100% of the time). Consider walking more in the afternoon when stress levels are lower.''"
  by (simp add: generateSessionInsights_def session2_def entry1_def entry3_def Let_def
      analyzeTimePatterns_def periodStressRate_def analyzeLocationPatterns_def numberToString_def
      decimal_100 decimal_2)

text \<open>
  Claim C10. For every walk session with fewer than 3 mood entries
  \<open>analyzeLocationPatterns\<close> yields no sentence, and the insight string contains neither
  the sentence on areas that consistently triggered stress nor the sentence on areas that
  consistently provided calm moments, whatever the rates of the clusters of these entries
  are. The location heuristic yields a sentence only for at least 3 entries.
\<close>

theorem location_sentence_needs_three_entries:
  "(length (moodEntries session) < 3 \<longrightarrow>
      analyzeLocationPatterns (moodEntries session) = None
    \<and> \<not> sublist stressAreasSentence (generateSessionInsights getHours session)
    \<and> \<not> sublist calmAreasSentence (generateSessionInsights getHours session))
   \<and> (analyzeLocationPatterns es \<noteq> None \<longrightarrow> 3 \<le> length es)"
proof (intro conjI impI)
  assume l: "length (moodEntries session) < 3"
  then show n: "analyzeLocationPatterns (moodEntries session) = None"
    by (simp add: analyzeLocationPatterns_def)
  have s: "CHR ''S'' \<notin> set (generateSessionInsights getHours session)"
    using insights_without_location_no_S[OF n] .
  show "\<not> sublist stressAreasSentence (generateSessionInsights getHours session)"
    using s sentences_start_with_S(1) set_mono_sublist by blast
  show "\<not> sublist calmAreasSentence (generateSessionInsights getHours session)"
    using s sentences_start_with_S(2) set_mono_sublist by blast
next
  assume "analyzeLocationPatterns es \<noteq> None"
  then show "3 \<le> length es"
    by (cases "length es < 3") (simp_all add: analyzeLocationPatterns_def)
qed

theorem location_sentence_needs_three_entries_witness:
  "length (moodEntries session2) < 3
   \<and> clusterNearbyEntries (moodEntries session2) 50 = [clusterA]
   \<and> stressRate clusterA > 0.6
   \<and> analyzeLocationPatterns (moodEntries session2) = None
   \<and> generateSessionInsights (\<lambda>t. 10) session2 =
     ''The walk had more stressful moments (100%) than calm ones. High noise levels (2 instances) often correlated with stress (100% of the time). Consider walking more in the afternoon when stress levels are lower.''
   \<and> \<not> sublist stressAreasSentence (generateSessionInsights (\<lambda>t. 10) session2)
   \<and> \<not> sublist calmAreasSentence (generateSessionInsights (\<lambda>t. 10) session2)"
proof -
  have l: "length (moodEntries session2) < 3" by (simp add: session2_def)
  have c: "clusterNearbyEntries (moodEntries session2) 50 = [clusterA]"
    by (simp add: session2_def clusterNearbyEntries_def clusterStep_def addNearby_def
        entry1_def entry3_def example_distances clusterA_def)
  have r: "stressRate clusterA > 0.6" by (simp add: example_rates)
  from location_sentence_needs_three_entries[of session2 "\<lambda>t. 10" "[]"] l c r example_insights
  show ?thesis by blast
qed


end
